theory Spec2Isabelle
  imports Complex_Main "HOL-Library.Word" "HOL-Library.AList" "HOL-Library.Sublist"
begin

section \<open>JavaScript values\<close>

text \<open>
  A JavaScript string is a sequence of 16-bit code units. The literals of the two
  handlers that are not ASCII are written as their code units; ASCII literals go
  through \<open>ascii\<close>.
\<close>

type_synonym jsstring = "16 word list"

definition ascii :: "string \<Rightarrow> jsstring" where
  "ascii s = map of_char s"

text \<open>
  The values the handlers see: what \<open>JSON.parse\<close> returns (null, booleans, numbers,
  strings, arrays, objects with their own properties in order), and \<open>undefined\<close>, which
  a property read returns for a missing key. A number is the real number the double
  denotes (\<open>JSON.parse\<close> yields no NaN, and both zeros are 0).
\<close>

datatype jsval =
    JUndefined
  | JNull
  | JBool bool
  | JNum real
  | JStr jsstring
  | JArr "jsval list"
  | JObj "(jsstring \<times> jsval) list"

text \<open>A thrown \<open>Error\<close> object; the handlers read only its \<open>message\<close>.\<close>

datatype js_error = JsError (err_message: jsstring)

text \<open>The two kinds of \<open>TypeError\<close> the handlers can provoke.\<close>

datatype type_fault =
    NullishRead jsval jsstring  \<comment> \<open>reading a property of \<open>undefined\<close> or \<open>null\<close>\<close>
  | NotAFunction jsstring       \<comment> \<open>calling a property that is not a function\<close>

text \<open>
  What the JavaScript engine supplies and the repository does not contain: the message
  text of a \<open>TypeError\<close>, and the \<open>ToString\<close> conversion of numbers, arrays and objects
  (which can throw for an object). The handlers are parameterised by it.
\<close>

record engine =
  type_error_message :: "type_fault \<Rightarrow> jsstring"
  to_string :: "jsval \<Rightarrow> js_error + jsstring"

definition type_error :: "engine \<Rightarrow> type_fault \<Rightarrow> js_error" where
  "type_error eng f = JsError (type_error_message eng f)"

text \<open>\<open>undefined\<close> and \<open>null\<close>: a property read on them throws a \<open>TypeError\<close>.\<close>

definition nullish :: "jsval \<Rightarrow> bool" where
  "nullish v \<longleftrightarrow> v = JUndefined \<or> v = JNull"

text \<open>
  The value of \<open>v.k\<close> on a value that is not nullish, for the property names the
  handlers read (\<open>prompt\<close>, \<open>task_id\<close>, \<open>task_status\<close>, \<open>output_images\<close>, \<open>url\<close>,
  \<open>error\<close>, \<open>message\<close>): none of them is a property of a string, number, boolean or
  array, so only an object can hold one.
\<close>

definition own_prop :: "jsval \<Rightarrow> jsstring \<Rightarrow> jsval" where
  "own_prop v k =
     (case v of
        JObj kvs \<Rightarrow> (case map_of kvs k of None \<Rightarrow> JUndefined | Some x \<Rightarrow> x)
      | _ \<Rightarrow> JUndefined)"

definition get_prop :: "engine \<Rightarrow> jsval \<Rightarrow> jsstring \<Rightarrow> js_error + jsval" where
  "get_prop eng v k =
     (if nullish v then Inl (type_error eng (NullishRead v k)) else Inr (own_prop v k))"

text \<open>
  The value of \<open>v[0]\<close> on a value that is not nullish: the first element of an array,
  the first code unit of a string, the property \<open>"0"\<close> of an object.
\<close>

definition first_elem :: "jsval \<Rightarrow> jsval" where
  "first_elem v =
     (case v of
        JArr xs \<Rightarrow> (case xs of [] \<Rightarrow> JUndefined | x # _ \<Rightarrow> x)
      | JStr s \<Rightarrow> (case s of [] \<Rightarrow> JUndefined | c # _ \<Rightarrow> JStr [c])
      | JObj kvs \<Rightarrow> (case map_of kvs (ascii ''0'') of None \<Rightarrow> JUndefined | Some x \<Rightarrow> x)
      | _ \<Rightarrow> JUndefined)"

definition get_index0 :: "engine \<Rightarrow> jsval \<Rightarrow> js_error + jsval" where
  "get_index0 eng v =
     (if nullish v then Inl (type_error eng (NullishRead v (ascii ''0''))) else Inr (first_elem v))"

text \<open>\<open>ToBoolean\<close>, as \<open>!v\<close> and \<open>v || w\<close> use it.\<close>

fun truthy :: "jsval \<Rightarrow> bool" where
  "truthy JUndefined = False"
| "truthy JNull = False"
| "truthy (JBool b) = b"
| "truthy (JNum x) = (x \<noteq> 0)"
| "truthy (JStr s) = (s \<noteq> [])"
| "truthy (JArr xs) = True"
| "truthy (JObj kvs) = True"

text \<open>The string a value contributes to a template literal or to \<open>'...' + v\<close>.\<close>

definition tpl :: "engine \<Rightarrow> jsval \<Rightarrow> js_error + jsstring" where
  "tpl eng v =
     (case v of
        JStr s \<Rightarrow> Inr s
      | JUndefined \<Rightarrow> Inr (ascii ''undefined'')
      | JNull \<Rightarrow> Inr (ascii ''null'')
      | JBool b \<Rightarrow> Inr (if b then ascii ''true'' else ascii ''false'')
      | _ \<Rightarrow> to_string eng v)"

text \<open>The decimal digits of a non-negative integer (\<open>i + 1\<close>, an HTTP status).\<close>

fun decimal :: "nat \<Rightarrow> jsstring" where
  "decimal n = (if n < 10 then [of_nat (48 + n)]
                else decimal (n div 10) @ [of_nat (48 + n mod 10)])"

declare decimal.simps [simp del]

text \<open>\<open>String.prototype.trim\<close>: white space and line terminators of ECMAScript.\<close>

definition is_white_space :: "16 word \<Rightarrow> bool" where
  "is_white_space c \<longleftrightarrow>
     c \<in> {0x9, 0xA, 0xB, 0xC, 0xD, 0x20, 0xA0, 0x1680, 0x2028, 0x2029, 0x202F, 0x205F,
          0x3000, 0xFEFF}
     \<or> (0x2000 \<le> c \<and> c \<le> 0x200A)"

definition trim :: "jsstring \<Rightarrow> jsstring" where
  "trim s = rev (dropWhile is_white_space (rev (dropWhile is_white_space s)))"

section \<open>The remote service and the events\<close>

text \<open>
  A progress event, as \<open>sendEvent(type, data)\<close> serialises it into one frame
  \<open>data: {"type": ..., "message": ..., "imageUrl": ...}\<close>: the constructor is the
  \<open>type\<close>, then the \<open>message\<close>, and for \<open>complete\<close> the \<open>imageUrl\<close>
  (\<open>JSON.stringify\<close> omits the key when the value is \<open>undefined\<close>).
\<close>

datatype event =
    StatusEvent jsstring
  | CompleteEvent jsstring jsval
  | ErrorEvent jsstring

fun terminal :: "event \<Rightarrow> bool" where
  "terminal (StatusEvent m) = False"
| "terminal (CompleteEvent m u) = True"
| "terminal (ErrorEvent m) = True"

fun is_status :: "event \<Rightarrow> bool" where
  "is_status (StatusEvent m) = True"
| "is_status (CompleteEvent m u) = False"
| "is_status (ErrorEvent m) = False"

text \<open>A call of \<open>fetch\<close>: the request it sends.\<close>

record request =
  req_method :: jsstring
  req_url :: jsstring
  req_headers :: "(jsstring \<times> jsstring) list"
  req_body :: jsval

text \<open>
  What a \<open>fetch\<close> resolves to: \<open>ok\<close>, \<open>status\<close>, and the result of reading the body
  with \<open>text()\<close> or with \<open>json()\<close> (either can throw; a handler reads a body once).
\<close>

record response =
  resp_ok :: bool
  resp_status :: nat
  resp_text :: "js_error + jsstring"
  resp_json :: "js_error + jsval"

text \<open>
  The remote service as the handler meets it: the outcome of the submit call and of the
  \<open>i\<close>-th poll call (\<open>Inl\<close> when \<open>fetch\<close> itself throws). Each loop iteration polls
  once, so iteration \<open>i\<close> gets answer \<open>i\<close>.
\<close>

record remote =
  submit :: "js_error + response"
  poll :: "nat \<Rightarrow> js_error + response"

definition bearer :: "jsstring option \<Rightarrow> jsstring" where
  "bearer key = ascii ''Bearer '' @ (case key of None \<Rightarrow> ascii ''undefined'' | Some k \<Rightarrow> k)"

definition submit_request :: "jsstring \<Rightarrow> jsstring option \<Rightarrow> jsstring \<Rightarrow> request" where
  "submit_request base key prompt =
     \<lparr> req_method = ascii ''POST'',
       req_url = base @ ascii ''v1/images/generations'',
       req_headers =
         [(ascii ''Authorization'', bearer key),
          (ascii ''Content-Type'', ascii ''application/json''),
          (ascii ''X-ModelScope-Async-Mode'', ascii ''true'')],
       req_body =
         JObj [(ascii ''model'', JStr (ascii ''Tongyi-MAI/Z-Image-Turbo'')),
               (ascii ''prompt'', JStr (trim prompt))] \<rparr>"

definition poll_request :: "jsstring \<Rightarrow> jsstring option \<Rightarrow> jsstring \<Rightarrow> request" where
  "poll_request base key tid =
     \<lparr> req_method = ascii ''GET'',
       req_url = base @ ascii ''v1/tasks/'' @ tid,
       req_headers =
         [(ascii ''Authorization'', bearer key),
          (ascii ''Content-Type'', ascii ''application/json''),
          (ascii ''X-ModelScope-Task-Type'', ascii ''image_generation'')],
       req_body = JUndefined \<rparr>"

definition BASE_URL :: jsstring where
  "BASE_URL = ascii ''https://api-inference.modelscope.cn/''"

definition SUCCEED :: jsval where
  "SUCCEED = JStr (ascii ''SUCCEED'')"

definition FAILED :: jsval where
  "FAILED = JStr (ascii ''FAILED'')"

text \<open>The message literals both handlers share.\<close>

definition MSG_EMPTY_PROMPT :: jsstring where
  "MSG_EMPTY_PROMPT = [0x8BF7, 0x8F93, 0x5165, 0x63D0, 0x793A, 0x8BCD]"

definition MSG_SUBMITTING :: jsstring where
  "MSG_SUBMITTING =
     [0x6B63, 0x5728, 0x63D0, 0x4EA4, 0x751F, 0x6210, 0x4EFB, 0x52A1] @ ascii ''...''"

definition MSG_API_FAILED :: jsstring where
  "MSG_API_FAILED = ascii ''API '' @ [0x8BF7, 0x6C42, 0x5931, 0x8D25] @ ascii '': ''"

definition MSG_SUBMITTED :: jsstring where
  "MSG_SUBMITTED =
     [0x4EFB, 0x52A1, 0x5DF2, 0x63D0, 0x4EA4, 0xFF0C, 0x6B63, 0x5728, 0x751F, 0x6210, 0x4E2D]
     @ ascii ''...''"

definition MSG_COMPLETE :: jsstring where
  "MSG_COMPLETE = [0x751F, 0x6210, 0x5B8C, 0x6210, 0xFF01]"

definition MSG_TIMEOUT :: jsstring where
  "MSG_TIMEOUT = [0x751F, 0x6210, 0x8D85, 0x65F6, 0xFF0C, 0x8BF7, 0x91CD, 0x8BD5]"

definition MSG_SERVER_ERROR :: jsstring where
  "MSG_SERVER_ERROR = [0x670D, 0x52A1, 0x5668, 0x9519, 0x8BEF] @ ascii '': ''"

section \<open>The edge handler: functions/api/generate.js\<close>

text \<open>
  What the asynchronous task has done so far: the calls on the stream writer, in order,
  and the requests sent to the remote service, in order.
\<close>

datatype writer_op = Write event | Close

record task_state =
  written :: "writer_op list"
  fetched :: "request list"

definition init_task :: task_state where
  "init_task = \<lparr> written = [], fetched = [] \<rparr>"

definition sendEvent :: "event \<Rightarrow> task_state \<Rightarrow> task_state" where
  "sendEvent e s = s\<lparr> written := written s @ [Write e] \<rparr>"

definition writer_close :: "task_state \<Rightarrow> task_state" where
  "writer_close s = s\<lparr> written := written s @ [Close] \<rparr>"

definition fetch_sent :: "request \<Rightarrow> task_state \<Rightarrow> task_state" where
  "fetch_sent r s = s\<lparr> fetched := fetched s @ [r] \<rparr>"

definition EDGE_MAX_POLLS :: nat where
  "EDGE_MAX_POLLS = 40"

definition EDGE_MSG_FAILED :: jsstring where
  "EDGE_MSG_FAILED = [0x751F, 0x6210, 0x5931, 0x8D25] @ ascii '': ''"

definition EDGE_MSG_UNKNOWN :: jsstring where
  "EDGE_MSG_UNKNOWN = [0x672A, 0x77E5, 0x539F, 0x56E0]"

definition edge_pending_message :: "nat \<Rightarrow> jsstring" where
  "edge_pending_message i =
     [0x751F, 0x6210, 0x4E2D] @ ascii ''... ('' @ decimal (i + 1) @ ascii '')''"

text \<open>\<open>pollData.output_images[0].url\<close>\<close>

definition edge_image_url :: "engine \<Rightarrow> jsval \<Rightarrow> js_error + jsval" where
  "edge_image_url eng pollData =
     (case get_prop eng pollData (ascii ''output_images'') of
        Inl e \<Rightarrow> Inl e
      | Inr imgs \<Rightarrow>
          (case get_index0 eng imgs of
             Inl e \<Rightarrow> Inl e
           | Inr img \<Rightarrow> get_prop eng img (ascii ''url'')))"

text \<open>\<open>pollData.error?.message || fallback\<close>, for a \<open>pollData\<close> that is not nullish.\<close>

definition failure_reason :: "engine \<Rightarrow> jsval \<Rightarrow> jsstring \<Rightarrow> js_error + jsval" where
  "failure_reason eng pollData fallback =
     (case get_prop eng pollData (ascii ''error'') of
        Inl e \<Rightarrow> Inl e
      | Inr err \<Rightarrow>
          (if nullish err then Inr (JStr fallback)
           else (case get_prop eng err (ascii ''message'') of
                   Inl e \<Rightarrow> Inl e
                 | Inr m \<Rightarrow> Inr (if truthy m then m else JStr fallback))))"

text \<open>
  The poll loop, lines 64 to 93, from iteration \<open>i\<close>, and the timeout after it. The result
  is the state reached and the error thrown, if one was: the \<open>try\<close> block ends there.
\<close>

function edge_poll ::
  "engine \<Rightarrow> jsstring option \<Rightarrow> jsval \<Rightarrow> remote \<Rightarrow> nat \<Rightarrow> task_state
     \<Rightarrow> task_state \<times> js_error option" where
  "edge_poll eng key taskId rem i s =
     (if i < EDGE_MAX_POLLS then
        (case tpl eng taskId of
           Inl e \<Rightarrow> (s, Some e)
         | Inr tid \<Rightarrow>
             (let s1 = fetch_sent (poll_request BASE_URL key tid) s in
              case poll rem i of
                Inl e \<Rightarrow> (s1, Some e)
              | Inr pollRes \<Rightarrow>
                  (case resp_json pollRes of
                     Inl e \<Rightarrow> (s1, Some e)
                   | Inr pollData \<Rightarrow>
                       (case get_prop eng pollData (ascii ''task_status'') of
                          Inl e \<Rightarrow> (s1, Some e)
                        | Inr st \<Rightarrow>
                            if st = SUCCEED then
                              (case edge_image_url eng pollData of
                                 Inl e \<Rightarrow> (s1, Some e)
                               | Inr url \<Rightarrow>
                                   (writer_close (sendEvent (CompleteEvent MSG_COMPLETE url) s1),
                                    None))
                            else if st = FAILED then
                              (case failure_reason eng pollData EDGE_MSG_UNKNOWN of
                                 Inl e \<Rightarrow> (s1, Some e)
                               | Inr r \<Rightarrow>
                                   (case tpl eng r of
                                      Inl e \<Rightarrow> (s1, Some e)
                                    | Inr reason \<Rightarrow>
                                        (writer_close
                                           (sendEvent (ErrorEvent (EDGE_MSG_FAILED @ reason)) s1),
                                         None)))
                            else
                              edge_poll eng key taskId rem (i + 1)
                                (sendEvent (StatusEvent (edge_pending_message i)) s1)))))
      else (writer_close (sendEvent (ErrorEvent MSG_TIMEOUT) s), None))"
  by pat_completeness auto
termination
  by (relation "measure (\<lambda>(eng, key, taskId, rem, i, s). EDGE_MAX_POLLS - i)") auto

declare edge_poll.simps [simp del]

text \<open>The \<open>try\<close> block of the task, lines 35 to 96.\<close>

definition edge_try ::
  "engine \<Rightarrow> jsstring option \<Rightarrow> jsstring \<Rightarrow> remote \<Rightarrow> task_state
     \<Rightarrow> task_state \<times> js_error option" where
  "edge_try eng key prompt rem s =
     (let s1 = sendEvent (StatusEvent MSG_SUBMITTING) s;
          s2 = fetch_sent (submit_request BASE_URL key prompt) s1
      in case submit rem of
           Inl e \<Rightarrow> (s2, Some e)
         | Inr submitRes \<Rightarrow>
             if \<not> resp_ok submitRes then
               (case resp_text submitRes of
                  Inl e \<Rightarrow> (s2, Some e)
                | Inr errText \<Rightarrow>
                    (writer_close (sendEvent (ErrorEvent (MSG_API_FAILED @ errText)) s2), None))
             else
               (case resp_json submitRes of
                  Inl e \<Rightarrow> (s2, Some e)
                | Inr submitData \<Rightarrow>
                    (case get_prop eng submitData (ascii ''task_id'') of
                       Inl e \<Rightarrow> (s2, Some e)
                     | Inr taskId \<Rightarrow>
                         edge_poll eng key taskId rem 0
                           (sendEvent (StatusEvent MSG_SUBMITTED) s2))))"

text \<open>The task, lines 33 to 102: the \<open>try\<close> block and its \<open>catch\<close>.\<close>

definition edge_task ::
  "engine \<Rightarrow> jsstring option \<Rightarrow> jsstring \<Rightarrow> remote \<Rightarrow> task_state \<Rightarrow> task_state" where
  "edge_task eng key prompt rem s =
     (case edge_try eng key prompt rem s of
        (s', None) \<Rightarrow> s'
      | (s', Some err) \<Rightarrow>
          writer_close (sendEvent (ErrorEvent (MSG_SERVER_ERROR @ err_message err)) s'))"

text \<open>
  What \<open>onRequestPost\<close> hands back: a response with a JSON body, a response whose body
  is the event stream, or a rejected promise.
\<close>

datatype reply =
    JsonReply nat "(jsstring \<times> jsstring) list" jsval
  | StreamReply "(jsstring \<times> jsstring) list"
  | Threw js_error

definition SSE_HEADERS :: "(jsstring \<times> jsstring) list" where
  "SSE_HEADERS =
     [(ascii ''Content-Type'', ascii ''text/event-stream''),
      (ascii ''Cache-Control'', ascii ''no-cache''),
      (ascii ''Connection'', ascii ''keep-alive'')]"

definition EDGE_HEADERS :: "(jsstring \<times> jsstring) list" where
  "EDGE_HEADERS = SSE_HEADERS @ [(ascii ''Access-Control-Allow-Origin'', ascii ''*'')]"

definition edge_rejection :: reply where
  "edge_rejection =
     JsonReply 400 [(ascii ''Content-Type'', ascii ''application/json'')]
       (JObj [(ascii ''error'', JStr MSG_EMPTY_PROMPT)])"

text \<open>
  \<open>onRequestPost\<close>: \<open>key\<close> is \<open>env.MODELSCOPE_API_KEY\<close> (\<open>None\<close> when the variable is
  not set), \<open>body\<close> the result of \<open>request.json()\<close>. The reply comes with what the task
  does, started from nothing written and nothing fetched.
\<close>

definition onRequestPost ::
  "engine \<Rightarrow> jsstring option \<Rightarrow> js_error + jsval \<Rightarrow> remote \<Rightarrow> reply \<times> task_state" where
  "onRequestPost eng key body rem =
     (case body of
        Inl e \<Rightarrow> (Threw e, init_task)
      | Inr b \<Rightarrow>
          (case get_prop eng b (ascii ''prompt'') of
             Inl e \<Rightarrow> (Threw e, init_task)
           | Inr prompt \<Rightarrow>
               if \<not> truthy prompt then (edge_rejection, init_task)
               else
                 (case prompt of
                    JStr p \<Rightarrow>
                      if trim p = [] then (edge_rejection, init_task)
                      else
                        (StreamReply EDGE_HEADERS, edge_task eng key p rem init_task)
                  | _ \<Rightarrow> (Threw (type_error eng (NotAFunction (ascii ''prompt.trim''))), init_task))))"

section \<open>The Express adapter: functions/_middleware.js\<close>

text \<open>
  The route handler works on the response object \<open>res\<close> it is given. Its calls on
  \<open>res\<close> are recorded in order; which methods \<open>res\<close> has is a parameter, since calling
  a missing one throws a \<open>TypeError\<close>. (\<open>res.status\<close> returns \<open>res\<close> itself, in Express
  and in \<open>fakeRes\<close>.)
\<close>

datatype res_call =
    ResStatus nat
  | ResJson jsval
  | ResSetHeader jsstring jsstring
  | ResWrite event
  | ResEnd

record res_methods =
  has_status :: bool
  has_json :: bool
  has_setHeader :: bool
  has_write :: bool
  has_end :: bool

record route_state =
  res_calls :: "res_call list"
  requested :: "request list"

definition init_route :: route_state where
  "init_route = \<lparr> res_calls = [], requested = [] \<rparr>"

definition called :: "res_call \<Rightarrow> route_state \<Rightarrow> route_state" where
  "called c s = s\<lparr> res_calls := res_calls s @ [c] \<rparr>"

definition route_fetch_sent :: "request \<Rightarrow> route_state \<Rightarrow> route_state" where
  "route_fetch_sent r s = s\<lparr> requested := requested s @ [r] \<rparr>"

text \<open>\<open>sendEvent\<close> of the route handler, lines 47 to 53, with its guard \<open>if (res.write)\<close>.\<close>

definition route_sendEvent :: "res_methods \<Rightarrow> event \<Rightarrow> route_state \<Rightarrow> route_state" where
  "route_sendEvent res e s = (if has_write res then called (ResWrite e) s else s)"

text \<open>\<open>res.end()\<close>\<close>

definition route_end ::
  "engine \<Rightarrow> res_methods \<Rightarrow> route_state \<Rightarrow> route_state \<times> js_error option" where
  "route_end eng res s =
     (if has_end res then (called ResEnd s, None)
      else (s, Some (type_error eng (NotAFunction (ascii ''res.end'')))))"

definition ROUTE_MAX_POLLS :: nat where
  "ROUTE_MAX_POLLS = 60"

definition ROUTE_MSG_POLL_FAILED :: jsstring where
  "ROUTE_MSG_POLL_FAILED = [0x8F6E, 0x8BE2, 0x5931, 0x8D25] @ ascii '': ''"

definition ROUTE_MSG_FAILED :: jsstring where
  "ROUTE_MSG_FAILED = [0x56FE, 0x7247, 0x751F, 0x6210, 0x5931, 0x8D25] @ ascii '': ''"

definition ROUTE_MSG_UNKNOWN :: jsstring where
  "ROUTE_MSG_UNKNOWN = [0x672A, 0x77E5, 0x9519, 0x8BEF]"

definition route_pending_message :: "nat \<Rightarrow> jsstring" where
  "route_pending_message i =
     [0x6B63, 0x5728, 0x751F, 0x6210, 0x4E2D] @ ascii ''... ('' @ decimal (i + 1) @ ascii '')''"

text \<open>\<open>pollData.output_images.url\<close>\<close>

definition route_image_url :: "engine \<Rightarrow> jsval \<Rightarrow> js_error + jsval" where
  "route_image_url eng pollData =
     (case get_prop eng pollData (ascii ''output_images'') of
        Inl e \<Rightarrow> Inl e
      | Inr imgs \<Rightarrow> get_prop eng imgs (ascii ''url''))"

text \<open>The poll loop, lines 89 to 125, from iteration \<open>i\<close>, and the timeout after it.\<close>

function route_poll ::
  "engine \<Rightarrow> res_methods \<Rightarrow> jsstring \<Rightarrow> jsstring option \<Rightarrow> jsval \<Rightarrow> remote \<Rightarrow> nat
     \<Rightarrow> route_state \<Rightarrow> route_state \<times> js_error option" where
  "route_poll eng res base key taskId rem i s =
     (if i < ROUTE_MAX_POLLS then
        (case tpl eng taskId of
           Inl e \<Rightarrow> (s, Some e)
         | Inr tid \<Rightarrow>
             (let s1 = route_fetch_sent (poll_request base key tid) s in
              case poll rem i of
                Inl e \<Rightarrow> (s1, Some e)
              | Inr pollRes \<Rightarrow>
                  if \<not> resp_ok pollRes then
                    route_end eng res
                      (route_sendEvent res
                         (ErrorEvent (ROUTE_MSG_POLL_FAILED @ decimal (resp_status pollRes))) s1)
                  else
                    (case resp_json pollRes of
                       Inl e \<Rightarrow> (s1, Some e)
                     | Inr pollData \<Rightarrow>
                         (case get_prop eng pollData (ascii ''task_status'') of
                            Inl e \<Rightarrow> (s1, Some e)
                          | Inr st \<Rightarrow>
                              if st = SUCCEED then
                                (case route_image_url eng pollData of
                                   Inl e \<Rightarrow> (s1, Some e)
                                 | Inr url \<Rightarrow>
                                     route_end eng res
                                       (route_sendEvent res (CompleteEvent MSG_COMPLETE url) s1))
                              else if st = FAILED then
                                (case failure_reason eng pollData ROUTE_MSG_UNKNOWN of
                                   Inl e \<Rightarrow> (s1, Some e)
                                 | Inr r \<Rightarrow>
                                     (case tpl eng r of
                                        Inl e \<Rightarrow> (s1, Some e)
                                      | Inr reason \<Rightarrow>
                                          route_end eng res
                                            (route_sendEvent res
                                               (ErrorEvent (ROUTE_MSG_FAILED @ reason)) s1)))
                              else
                                route_poll eng res base key taskId rem (i + 1)
                                  (route_sendEvent res
                                     (StatusEvent (route_pending_message i)) s1)))))
      else route_end eng res (route_sendEvent res (ErrorEvent MSG_TIMEOUT) s))"
  by pat_completeness auto
termination
  by (relation "measure (\<lambda>(eng, res, base, key, taskId, rem, i, s). ROUTE_MAX_POLLS - i)") auto

declare route_poll.simps [simp del]

text \<open>The \<open>try\<close> block of the route handler, lines 56 to 128.\<close>

definition route_try ::
  "engine \<Rightarrow> res_methods \<Rightarrow> jsstring \<Rightarrow> jsstring option \<Rightarrow> jsstring \<Rightarrow> remote
     \<Rightarrow> route_state \<Rightarrow> route_state \<times> js_error option" where
  "route_try eng res base key prompt rem s =
     (let s1 = route_sendEvent res (StatusEvent MSG_SUBMITTING) s;
          s2 = route_fetch_sent (submit_request base key prompt) s1
      in case submit rem of
           Inl e \<Rightarrow> (s2, Some e)
         | Inr submitRes \<Rightarrow>
             if \<not> resp_ok submitRes then
               (case resp_text submitRes of
                  Inl e \<Rightarrow> (s2, Some e)
                | Inr errText \<Rightarrow>
                    route_end eng res
                      (route_sendEvent res
                         (ErrorEvent
                            (MSG_API_FAILED @ decimal (resp_status submitRes) @ ascii '' ''
                               @ errText)) s2))
             else
               (case resp_json submitRes of
                  Inl e \<Rightarrow> (s2, Some e)
                | Inr submitData \<Rightarrow>
                    (case get_prop eng submitData (ascii ''task_id'') of
                       Inl e \<Rightarrow> (s2, Some e)
                     | Inr taskId \<Rightarrow>
                         route_poll eng res base key taskId rem 0
                           (route_sendEvent res (StatusEvent MSG_SUBMITTED) s2))))"

text \<open>
  The \<open>try\<close> block and its \<open>catch\<close>, lines 55 to 133. An error thrown in the \<open>catch\<close>
  leaves the handler.
\<close>

definition route_task ::
  "engine \<Rightarrow> res_methods \<Rightarrow> jsstring \<Rightarrow> jsstring option \<Rightarrow> jsstring \<Rightarrow> remote
     \<Rightarrow> route_state \<Rightarrow> route_state \<times> js_error option" where
  "route_task eng res base key prompt rem s =
     (case route_try eng res base key prompt rem s of
        (s', None) \<Rightarrow> (s', None)
      | (s', Some err) \<Rightarrow>
          route_end eng res
            (route_sendEvent res (ErrorEvent (MSG_SERVER_ERROR @ err_message err)) s'))"

text \<open>\<open>res.status(400).json({ error: ... })\<close>\<close>

definition route_rejection ::
  "engine \<Rightarrow> res_methods \<Rightarrow> route_state \<Rightarrow> route_state \<times> js_error option" where
  "route_rejection eng res s =
     (if \<not> has_status res then (s, Some (type_error eng (NotAFunction (ascii ''res.status''))))
      else
        (let s1 = called (ResStatus 400) s in
         if \<not> has_json res then
           (s1, Some (type_error eng (NotAFunction (ascii ''res.status(...).json''))))
         else (called (ResJson (JObj [(ascii ''error'', JStr MSG_EMPTY_PROMPT)])) s1, None)))"

text \<open>The three \<open>res.setHeader\<close> calls, lines 43 to 45.\<close>

definition route_headers ::
  "engine \<Rightarrow> res_methods \<Rightarrow> route_state \<Rightarrow> route_state \<times> js_error option" where
  "route_headers eng res s =
     (if \<not> has_setHeader res then
        (s, Some (type_error eng (NotAFunction (ascii ''res.setHeader''))))
      else (s\<lparr> res_calls := res_calls s @ map (\<lambda>(k, v). ResSetHeader k v) SSE_HEADERS \<rparr>, None))"

text \<open>
  The handler of \<open>POST /api/generate\<close>, lines 35 to 134: \<open>body\<close> is \<open>req.body\<close>, \<open>penv\<close>
  is \<open>process.env.MODELSCOPE_API_KEY\<close>. The result is what it did and the error it threw,
  if it did.
\<close>

definition route_generate ::
  "engine \<Rightarrow> res_methods \<Rightarrow> jsstring \<Rightarrow> jsstring option \<Rightarrow> jsval \<Rightarrow> remote
     \<Rightarrow> route_state \<times> js_error option" where
  "route_generate eng res base penv body rem =
     (case get_prop eng body (ascii ''prompt'') of
        Inl e \<Rightarrow> (init_route, Some e)
      | Inr prompt \<Rightarrow>
          if \<not> truthy prompt then route_rejection eng res init_route
          else
            (case prompt of
               JStr p \<Rightarrow>
                 if trim p = [] then route_rejection eng res init_route
                 else
                   (case route_headers eng res init_route of
                      (s, Some e) \<Rightarrow> (s, Some e)
                    | (s, None) \<Rightarrow> route_task eng res base penv p rem s)
             | _ \<Rightarrow> (init_route, Some (type_error eng (NotAFunction (ascii ''prompt.trim''))))))"

subsection \<open>The response object of the adapter\<close>

text \<open>
  \<open>fakeRes\<close>, lines 148 to 183: its fields, with \<open>_stream\<close> and \<open>_writer\<close> as the chunks
  written to the stream once it exists and whether the writer is closed, and the response
  the adapter's promise was resolved with, if it was.
\<close>

datatype fake_body = StreamBody | TextBody jsstring

record fake_res =
  statusCode :: nat
  fake_headers :: "(jsstring \<times> jsstring) list"
  fake_stream :: "event list option"
  fake_closed :: bool
  resolved :: "(nat \<times> (jsstring \<times> jsstring) list \<times> fake_body) option"

definition fakeRes :: fake_res where
  "fakeRes = \<lparr> statusCode = 200, fake_headers = [], fake_stream = None, fake_closed = False,
               resolved = None \<rparr>"

text \<open>The methods the object literal defines: \<open>write\<close>, \<open>end\<close>, \<open>set\<close>, \<open>status\<close>.\<close>

definition fakeRes_methods :: res_methods where
  "fakeRes_methods =
     \<lparr> has_status = True, has_json = False, has_setHeader = False, has_write = True,
       has_end = True \<rparr>"

text \<open>\<open>resolve(...)\<close>: a promise keeps its first resolution.\<close>

definition fake_resolve ::
  "nat \<times> (jsstring \<times> jsstring) list \<times> fake_body \<Rightarrow> fake_res \<Rightarrow> fake_res" where
  "fake_resolve r f = (if resolved f = None then f\<lparr> resolved := Some r \<rparr> else f)"

definition fakeRes_write :: "event \<Rightarrow> fake_res \<Rightarrow> fake_res" where
  "fakeRes_write chunk f =
     (let f1 = (case fake_stream f of
                  None \<Rightarrow>
                    (fake_resolve (statusCode f, fake_headers f, StreamBody) f)
                      \<lparr> fake_stream := Some [] \<rparr>
                | Some cs \<Rightarrow> f)
      in if fake_closed f1 then f1
         else f1\<lparr> fake_stream := map_option (\<lambda>cs. cs @ [chunk]) (fake_stream f1) \<rparr>)"

definition fakeRes_end :: "event option \<Rightarrow> fake_res \<Rightarrow> fake_res" where
  "fakeRes_end chunk f =
     (let f1 = (case chunk of None \<Rightarrow> f | Some c \<Rightarrow> fakeRes_write c f)
      in case fake_stream f1 of
           Some cs \<Rightarrow> f1\<lparr> fake_closed := True \<rparr>
         | None \<Rightarrow> fake_resolve (statusCode f1, fake_headers f1, TextBody []) f1)"

definition fakeRes_set :: "jsstring \<Rightarrow> jsstring \<Rightarrow> fake_res \<Rightarrow> fake_res" where
  "fakeRes_set name v f = f\<lparr> fake_headers := AList.update name v (fake_headers f) \<rparr>"

definition fakeRes_status :: "nat \<Rightarrow> fake_res \<Rightarrow> fake_res" where
  "fakeRes_status code f = f\<lparr> statusCode := code \<rparr>"

text \<open>
  A recorded call carried out on \<open>fakeRes\<close>. It has neither \<open>json\<close> nor \<open>setHeader\<close>, so
  the route handler records no such call on it.
\<close>

fun on_fakeRes :: "res_call \<Rightarrow> fake_res \<Rightarrow> fake_res" where
  "on_fakeRes (ResStatus code) f = fakeRes_status code f"
| "on_fakeRes (ResWrite chunk) f = fakeRes_write chunk f"
| "on_fakeRes ResEnd f = fakeRes_end None f"
| "on_fakeRes (ResJson v) f = f"
| "on_fakeRes (ResSetHeader k v) f = f"

text \<open>
  The module's export, lines 13 to 25, for a request that Express routes to the handler
  of \<open>POST /api/generate\<close> with \<open>body\<close> as \<open>req.body\<close>: \<open>g\<close> is
  \<open>process.env.MODELSCOPE_API_KEY\<close> as the previous requests left it, \<open>key\<close> is
  \<open>env.MODELSCOPE_API_KEY\<close>. The result is the new \<open>process.env.MODELSCOPE_API_KEY\<close>,
  \<open>fakeRes\<close> after the handler's calls, the requests sent and the error thrown.
\<close>

definition module_exports ::
  "engine \<Rightarrow> jsstring option \<Rightarrow> jsstring option \<Rightarrow> jsval \<Rightarrow> remote
     \<Rightarrow> jsstring option \<times> fake_res \<times> request list \<times> js_error option" where
  "module_exports eng g key body rem =
     (let g' = key;
          (s, err) = route_generate eng fakeRes_methods BASE_URL g' body rem
      in (g', fold on_fakeRes (res_calls s) fakeRes, requested s, err))"

section \<open>Scenarios of a request\<close>

text \<open>
  The prompt of a request body when the handlers accept it: a string that is not empty
  after trimming.
\<close>

definition prompt_of :: "jsval \<Rightarrow> jsstring option" where
  "prompt_of b =
     (case own_prop b (ascii ''prompt'') of
        JStr p \<Rightarrow> if trim p = [] then None else Some p
      | _ \<Rightarrow> None)"

text \<open>A prompt that is missing, empty or white space only (or another falsy value).\<close>

definition blank_prompt :: "jsval \<Rightarrow> bool" where
  "blank_prompt v = (case v of JStr p \<Rightarrow> trim p = [] | _ \<Rightarrow> \<not> truthy v)"

text \<open>
  The submit call succeeded: the response is a success response with a JSON body that is
  not null; the value is what the handlers read as \<open>task_id\<close>.
\<close>

definition submitted_task :: "remote \<Rightarrow> jsval option" where
  "submitted_task rem =
     (case submit rem of
        Inl e \<Rightarrow> None
      | Inr submitRes \<Rightarrow>
          if \<not> resp_ok submitRes then None
          else (case resp_json submitRes of
                  Inl e \<Rightarrow> None
                | Inr d \<Rightarrow> if nullish d then None else Some (own_prop d (ascii ''task_id''))))"

text \<open>
  The JSON body of a poll answer, when there is one and it is not null. The Express
  adapter reads the body of a success response only.
\<close>

definition poll_data :: "js_error + response \<Rightarrow> jsval option" where
  "poll_data r =
     (case r of
        Inl e \<Rightarrow> None
      | Inr pollRes \<Rightarrow>
          (case resp_json pollRes of
             Inl e \<Rightarrow> None
           | Inr d \<Rightarrow> if nullish d then None else Some d))"

definition route_poll_data :: "js_error + response \<Rightarrow> jsval option" where
  "route_poll_data r =
     (case r of
        Inl e \<Rightarrow> None
      | Inr pollRes \<Rightarrow> if resp_ok pollRes then poll_data r else None)"

definition task_status :: "jsval \<Rightarrow> jsval" where
  "task_status d = own_prop d (ascii ''task_status'')"

text \<open>A poll answer whose status is neither of the two literals.\<close>

definition edge_pending :: "js_error + response \<Rightarrow> bool" where
  "edge_pending r =
     (case poll_data r of
        None \<Rightarrow> False
      | Some d \<Rightarrow> task_status d \<noteq> SUCCEED \<and> task_status d \<noteq> FAILED)"

definition route_pending :: "js_error + response \<Rightarrow> bool" where
  "route_pending r =
     (case route_poll_data r of
        None \<Rightarrow> False
      | Some d \<Rightarrow> task_status d \<noteq> SUCCEED \<and> task_status d \<noteq> FAILED)"

text \<open>A poll answer with status \<open>SUCCEED\<close> and \<open>u\<close> where the handler reads the image URL.\<close>

definition edge_succeeded :: "engine \<Rightarrow> js_error + response \<Rightarrow> jsval \<Rightarrow> bool" where
  "edge_succeeded eng r u =
     (case poll_data r of
        None \<Rightarrow> False
      | Some d \<Rightarrow> task_status d = SUCCEED \<and> edge_image_url eng d = Inr u)"

definition route_succeeded :: "engine \<Rightarrow> js_error + response \<Rightarrow> jsval \<Rightarrow> bool" where
  "route_succeeded eng r u =
     (case route_poll_data r of
        None \<Rightarrow> False
      | Some d \<Rightarrow> task_status d = SUCCEED \<and> route_image_url eng d = Inr u)"

text \<open>A poll answer with status \<open>FAILED\<close> and \<open>m\<close> as its \<open>error.message\<close>.\<close>

definition reason_field :: "jsval \<Rightarrow> jsval" where
  "reason_field d = own_prop (own_prop d (ascii ''error'')) (ascii ''message'')"

definition edge_failed :: "js_error + response \<Rightarrow> jsval \<Rightarrow> bool" where
  "edge_failed r m =
     (case poll_data r of
        None \<Rightarrow> False
      | Some d \<Rightarrow> task_status d = FAILED \<and> reason_field d = m)"

definition route_failed :: "js_error + response \<Rightarrow> jsval \<Rightarrow> bool" where
  "route_failed r m =
     (case route_poll_data r of
        None \<Rightarrow> False
      | Some d \<Rightarrow> task_status d = FAILED \<and> reason_field d = m)"

text \<open>The events up to and including \<open>n\<close> pending polls.\<close>

definition edge_progress :: "nat \<Rightarrow> event list" where
  "edge_progress n =
     [StatusEvent MSG_SUBMITTING, StatusEvent MSG_SUBMITTED]
     @ map (\<lambda>j. StatusEvent (edge_pending_message j)) [0..<n]"

definition route_progress :: "nat \<Rightarrow> event list" where
  "route_progress n =
     [StatusEvent MSG_SUBMITTING, StatusEvent MSG_SUBMITTED]
     @ map (\<lambda>j. StatusEvent (route_pending_message j)) [0..<n]"

text \<open>The state after \<open>n\<close> pending polls from iteration \<open>i\<close>.\<close>

definition pending_run ::
  "jsstring option \<Rightarrow> jsstring \<Rightarrow> nat \<Rightarrow> nat \<Rightarrow> task_state \<Rightarrow> task_state" where
  "pending_run key tid i n s =
     s\<lparr> written := written s @ map (\<lambda>j. Write (StatusEvent (edge_pending_message j))) [i..<i + n],
        fetched := fetched s @ replicate n (poll_request BASE_URL key tid) \<rparr>"

definition route_pending_run ::
  "jsstring \<Rightarrow> jsstring option \<Rightarrow> jsstring \<Rightarrow> nat \<Rightarrow> nat \<Rightarrow> route_state \<Rightarrow> route_state" where
  "route_pending_run base key tid i n s =
     s\<lparr> res_calls :=
          res_calls s @ map (\<lambda>j. ResWrite (StatusEvent (route_pending_message j))) [i..<i + n],
        requested := requested s @ replicate n (poll_request base key tid) \<rparr>"

text \<open>The state when the poll loop starts.\<close>

definition edge_submitted :: "jsstring option \<Rightarrow> jsstring \<Rightarrow> task_state" where
  "edge_submitted key p =
     \<lparr> written = [Write (StatusEvent MSG_SUBMITTING), Write (StatusEvent MSG_SUBMITTED)],
       fetched = [submit_request BASE_URL key p] \<rparr>"

definition ROUTE_HEADER_CALLS :: "res_call list" where
  "ROUTE_HEADER_CALLS = map (\<lambda>(k, v). ResSetHeader k v) SSE_HEADERS"

definition route_submitted :: "jsstring \<Rightarrow> jsstring option \<Rightarrow> jsstring \<Rightarrow> route_state" where
  "route_submitted base key p =
     \<lparr> res_calls =
         ROUTE_HEADER_CALLS
         @ [ResWrite (StatusEvent MSG_SUBMITTING), ResWrite (StatusEvent MSG_SUBMITTED)],
       requested = [submit_request base key p] \<rparr>"

text \<open>
  A response object on which the route handler can stream: it has \<open>setHeader\<close>, \<open>write\<close>
  and \<open>end\<close>.
\<close>

definition streams :: "res_methods \<Rightarrow> bool" where
  "streams res \<longleftrightarrow> has_setHeader res \<and> has_write res \<and> has_end res"

text \<open>
  The shape of a stream of events. \<open>status_writes\<close>: every operation so far wrote a status
  event. \<open>finished\<close>: status events were written, then one terminal event (\<open>complete\<close>
  or \<open>error\<close>), then the stream was closed, and nothing came after.
\<close>

definition status_writes :: "writer_op list \<Rightarrow> bool" where
  "status_writes ops = list_all (\<lambda>op. case op of Write e \<Rightarrow> is_status e | Close \<Rightarrow> False) ops"

definition finished :: "writer_op list \<Rightarrow> bool" where
  "finished ops =
     (case rev ops of
        Close # Write t # ws \<Rightarrow> terminal t \<and> status_writes (rev ws)
      | _ \<Rightarrow> False)"

text \<open>The stream operations among the calls on a response object.\<close>

fun stream_ops :: "res_call list \<Rightarrow> writer_op list" where
  "stream_ops [] = []"
| "stream_ops (ResWrite e # cs) = Write e # stream_ops cs"
| "stream_ops (ResEnd # cs) = Close # stream_ops cs"
| "stream_ops (c # cs) = stream_ops cs"

section \<open>Concrete requests and remote services\<close>

definition eng0 :: engine where
  "eng0 = \<lparr> type_error_message = (\<lambda>f. ascii ''not available''),
            to_string = (\<lambda>v. Inr (ascii ''[object Object]'')) \<rparr>"

text \<open>A response object with the methods of an Express response.\<close>

definition express_res :: res_methods where
  "express_res =
     \<lparr> has_status = True, has_json = True, has_setHeader = True, has_write = True,
       has_end = True \<rparr>"

text \<open>The body \<open>{"prompt": " a cat "}\<close>, and a body whose prompt is white space.\<close>

definition body0 :: jsval where
  "body0 = JObj [(ascii ''prompt'', JStr (ascii '' a cat ''))]"

definition blank_body :: jsval where
  "blank_body = JObj [(ascii ''prompt'', JStr (ascii ''   ''))]"

text \<open>A response with status \<open>st\<close> and the JSON body \<open>d\<close>, or the plain body \<open>t\<close>.\<close>

definition json_response :: "nat \<Rightarrow> jsval \<Rightarrow> response" where
  "json_response st d =
     \<lparr> resp_ok = (200 \<le> st \<and> st < 300), resp_status = st,
       resp_text = Inl (JsError (ascii ''body is JSON'')), resp_json = Inr d \<rparr>"

definition text_response :: "nat \<Rightarrow> jsstring \<Rightarrow> response" where
  "text_response st t =
     \<lparr> resp_ok = (200 \<le> st \<and> st < 300), resp_status = st,
       resp_text = Inr t, resp_json = Inl (JsError (ascii ''Unexpected token'')) \<rparr>"

definition accepted :: "js_error + response" where
  "accepted = Inr (json_response 200 (JObj [(ascii ''task_id'', JStr (ascii ''t1''))]))"

definition status_body :: "string \<Rightarrow> jsval" where
  "status_body st = JObj [(ascii ''task_status'', JStr (ascii st))]"

definition url0 :: jsval where
  "url0 = JStr (ascii ''https://img.example/1.png'')"

text \<open>\<open>{"task_status": st, "output_images": [{"url": ...}]}\<close>, as the edge handler reads it.\<close>

definition edge_image_body :: "string \<Rightarrow> jsval" where
  "edge_image_body st =
     JObj [(ascii ''task_status'', JStr (ascii st)),
           (ascii ''output_images'', JArr [JObj [(ascii ''url'', url0)]])]"

text \<open>\<open>{"task_status": st, "output_images": {"url": ...}}\<close>, as the route handler reads it.\<close>

definition route_image_body :: "string \<Rightarrow> jsval" where
  "route_image_body st =
     JObj [(ascii ''task_status'', JStr (ascii st)),
           (ascii ''output_images'', JObj [(ascii ''url'', url0)])]"

text \<open>Two polls answer \<open>PENDING\<close>, the third \<open>SUCCEED\<close>.\<close>

definition rem_edge_succeed :: remote where
  "rem_edge_succeed =
     \<lparr> submit = accepted,
       poll = (\<lambda>i. Inr (json_response 200
                 (if i < 2 then status_body ''PENDING'' else edge_image_body ''SUCCEED''))) \<rparr>"

definition rem_route_succeed :: remote where
  "rem_route_succeed =
     \<lparr> submit = accepted,
       poll = (\<lambda>i. Inr (json_response 200
                 (if i < 2 then status_body ''PENDING'' else route_image_body ''SUCCEED''))) \<rparr>"

text \<open>Every poll answers \<open>SUCCEEDED\<close>, with an image URL.\<close>

definition rem_succeeded :: remote where
  "rem_succeeded =
     \<lparr> submit = accepted, poll = (\<lambda>i. Inr (json_response 200 (edge_image_body ''SUCCEEDED''))) \<rparr>"

text \<open>Every poll answers \<open>PENDING\<close>.\<close>

definition rem_pending :: remote where
  "rem_pending =
     \<lparr> submit = accepted, poll = (\<lambda>i. Inr (json_response 200 (status_body ''PENDING''))) \<rparr>"

text \<open>The submit call is answered with status 401 and the body \<open>Unauthorized\<close>.\<close>

definition rem_rejected :: remote where
  "rem_rejected =
     \<lparr> submit = Inr (text_response 401 (ascii ''Unauthorized'')),
       poll = (\<lambda>i. Inl (JsError (ascii ''not reached''))) \<rparr>"

text \<open>
  The submit call is accepted with the body \<open>{}\<close>, every poll answers \<open>{}\<close>: no
  \<open>task_id\<close>, no \<open>task_status\<close>.
\<close>

definition rem_empty :: remote where
  "rem_empty =
     \<lparr> submit = Inr (json_response 200 (JObj [])),
       poll = (\<lambda>i. Inr (json_response 200 (JObj []))) \<rparr>"

text \<open>
  The first poll answers \<open>FAILED\<close> with \<open>error.message = "quota exceeded"\<close>, or with no
  \<open>error\<close> at all.
\<close>

definition failed_body :: jsval where
  "failed_body =
     JObj [(ascii ''task_status'', JStr (ascii ''FAILED'')),
           (ascii ''error'', JObj [(ascii ''message'', JStr (ascii ''quota exceeded''))])]"

definition rem_failed :: remote where
  "rem_failed = \<lparr> submit = accepted, poll = (\<lambda>i. Inr (json_response 200 failed_body)) \<rparr>"

definition rem_failed_silent :: remote where
  "rem_failed_silent =
     \<lparr> submit = accepted, poll = (\<lambda>i. Inr (json_response 200 (status_body ''FAILED''))) \<rparr>"

text \<open>The submit call throws: the network is down.\<close>

definition rem_down :: remote where
  "rem_down =
     \<lparr> submit = Inl (JsError (ascii ''fetch failed'')),
       poll = (\<lambda>i. Inl (JsError (ascii ''fetch failed''))) \<rparr>"

section \<open>Runs of the edge handler\<close>

lemma poll_dataD:
  "poll_data r = Some d \<Longrightarrow> \<exists>pollRes. r = Inr pollRes \<and> resp_json pollRes = Inr d \<and> \<not> nullish d"
  by (auto simp: poll_data_def split: sum.splits if_splits)

lemma submitted_taskD:
  "submitted_task rem = Some t \<Longrightarrow>
   \<exists>submitRes d. submit rem = Inr submitRes \<and> resp_ok submitRes \<and> resp_json submitRes = Inr d
      \<and> \<not> nullish d \<and> own_prop d (ascii ''task_id'') = t"
  by (auto simp: submitted_task_def split: sum.splits if_splits)

lemma trim_Nil [simp]: "trim [] = []"
  by (simp add: trim_def)

lemma prompt_ofD:
  "prompt_of b = Some p \<Longrightarrow>
   \<not> nullish b \<and> own_prop b (ascii ''prompt'') = JStr p \<and> p \<noteq> [] \<and> trim p \<noteq> []"
  by (auto simp: prompt_of_def nullish_def own_prop_def split: jsval.splits if_splits)

lemma edge_poll_step_pending:
  assumes "i < EDGE_MAX_POLLS" "tpl eng taskId = Inr tid" "edge_pending (poll rem i)"
  shows "edge_poll eng key taskId rem i s =
         edge_poll eng key taskId rem (Suc i)
           (sendEvent (StatusEvent (edge_pending_message i))
              (fetch_sent (poll_request BASE_URL key tid) s))"
proof -
  from assms(3) obtain d where d: "poll_data (poll rem i) = Some d"
    and st: "task_status d \<noteq> SUCCEED" "task_status d \<noteq> FAILED"
    by (auto simp: edge_pending_def split: option.splits)
  from poll_dataD[OF d] obtain pollRes where
    "poll rem i = Inr pollRes" "resp_json pollRes = Inr d" "\<not> nullish d" by blast
  with assms(1,2) st show ?thesis
    by (subst edge_poll.simps) (simp add: get_prop_def task_status_def)
qed

lemma edge_poll_pending_run:
  assumes "tpl eng taskId = Inr tid"
  shows "i + n \<le> EDGE_MAX_POLLS \<Longrightarrow> (\<forall>j. i \<le> j \<and> j < i + n \<longrightarrow> edge_pending (poll rem j)) \<Longrightarrow>
         edge_poll eng key taskId rem i s =
         edge_poll eng key taskId rem (i + n) (pending_run key tid i n s)"
proof (induction n arbitrary: i s)
  case 0
  then show ?case by (simp add: pending_run_def)
next
  case (Suc n)
  have "edge_poll eng key taskId rem i s =
         edge_poll eng key taskId rem (Suc i)
           (sendEvent (StatusEvent (edge_pending_message i))
              (fetch_sent (poll_request BASE_URL key tid) s))"
    using Suc.prems assms by (intro edge_poll_step_pending) auto
  also have "\<dots> = edge_poll eng key taskId rem (Suc i + n) (pending_run key tid (Suc i) n (sendEvent (StatusEvent (edge_pending_message i))
              (fetch_sent (poll_request BASE_URL key tid) s)))"
    using Suc.prems by (intro Suc.IH) auto
  also have "pending_run key tid (Suc i) n (sendEvent (StatusEvent (edge_pending_message i))
              (fetch_sent (poll_request BASE_URL key tid) s)) = pending_run key tid i (Suc n) s"
  proof -
    have "[i..<i + Suc n] = i # [Suc i..<Suc i + n]"
      by (subst upt_rec) simp
    then show ?thesis
      by (simp add: pending_run_def sendEvent_def fetch_sent_def replicate_append_same del: upt_Suc)
  qed
  finally show ?case by simp
qed

lemma onRequestPost_stream:
  assumes "prompt_of b = Some p"
  shows "onRequestPost eng key (Inr b) rem = (StreamReply EDGE_HEADERS, edge_task eng key p rem init_task)"
  using prompt_ofD[OF assms]
  by (simp add: onRequestPost_def get_prop_def EDGE_HEADERS_def)

lemma edge_try_submitted:
  assumes "submitted_task rem = Some taskId"
  shows "edge_try eng key p rem init_task = edge_poll eng key taskId rem 0 (edge_submitted key p)"
  using submitted_taskD[OF assms]
  by (auto simp: edge_try_def get_prop_def edge_submitted_def sendEvent_def fetch_sent_def init_task_def Let_def)

lemma edge_run_pending:
  assumes "submitted_task rem = Some taskId" "tpl eng taskId = Inr tid"
    "n \<le> EDGE_MAX_POLLS" "\<forall>j<n. edge_pending (poll rem j)"
  shows "edge_try eng key p rem init_task =
         edge_poll eng key taskId rem n
           \<lparr> written = map Write (edge_progress n),
             fetched = submit_request BASE_URL key p # replicate n (poll_request BASE_URL key tid) \<rparr>"
proof -
  have "edge_poll eng key taskId rem 0 (edge_submitted key p) =
        edge_poll eng key taskId rem (0 + n) (pending_run key tid 0 n (edge_submitted key p))"
    using assms by (intro edge_poll_pending_run) auto
  moreover have "pending_run key tid 0 n (edge_submitted key p) =
     \<lparr> written = map Write (edge_progress n),
       fetched = submit_request BASE_URL key p # replicate n (poll_request BASE_URL key tid) \<rparr>"
    by (simp add: pending_run_def edge_submitted_def edge_progress_def comp_def)
  ultimately show ?thesis
    using edge_try_submitted[OF assms(1)] by simp
qed

lemma edge_poll_step_succeed:
  assumes "i < EDGE_MAX_POLLS" "tpl eng taskId = Inr tid" "edge_succeeded eng (poll rem i) u"
  shows "edge_poll eng key taskId rem i s =
         (writer_close (sendEvent (CompleteEvent MSG_COMPLETE u)
              (fetch_sent (poll_request BASE_URL key tid) s)), None)"
proof -
  from assms(3) obtain d where d: "poll_data (poll rem i) = Some d"
    and st: "task_status d = SUCCEED" "edge_image_url eng d = Inr u"
    by (auto simp: edge_succeeded_def split: option.splits)
  from poll_dataD[OF d] obtain pollRes where
    "poll rem i = Inr pollRes" "resp_json pollRes = Inr d" "\<not> nullish d" by blast
  with assms(1,2) st show ?thesis
    by (subst edge_poll.simps) (simp add: get_prop_def task_status_def)
qed

lemma edge_succeed_run:
  assumes "prompt_of b = Some p" "submitted_task rem = Some (JStr tid)"
    "n < EDGE_MAX_POLLS" "\<forall>j<n. edge_pending (poll rem j)"
    "edge_succeeded eng (poll rem n) u"
  shows "onRequestPost eng key (Inr b) rem =
     (StreamReply EDGE_HEADERS,
      \<lparr> written = map Write (edge_progress n @ [CompleteEvent MSG_COMPLETE u]) @ [Close],
        fetched = submit_request BASE_URL key p # replicate (Suc n) (poll_request BASE_URL key tid) \<rparr>)"
proof -
  have t: "tpl eng (JStr tid) = Inr tid" by (simp add: tpl_def)
  have "edge_try eng key p rem init_task = edge_poll eng key (JStr tid) rem n
           \<lparr> written = map Write (edge_progress n),
             fetched = submit_request BASE_URL key p # replicate n (poll_request BASE_URL key tid) \<rparr>"
    using assms by (intro edge_run_pending t) auto
  also have "\<dots> = (\<lparr> written = map Write (edge_progress n @ [CompleteEvent MSG_COMPLETE u]) @ [Close],
        fetched = submit_request BASE_URL key p # replicate (Suc n) (poll_request BASE_URL key tid) \<rparr>, None)"
    using assms(3,5) t
    by (simp add: edge_poll_step_succeed writer_close_def sendEvent_def fetch_sent_def replicate_append_same)
  finally show ?thesis
    by (simp add: onRequestPost_stream[OF assms(1)] edge_task_def)
qed

section \<open>Runs of the route handler\<close>

lemma route_poll_dataD:
  "route_poll_data r = Some d \<Longrightarrow>
   \<exists>pollRes. r = Inr pollRes \<and> resp_ok pollRes \<and> resp_json pollRes = Inr d \<and> \<not> nullish d"
  by (auto simp: route_poll_data_def poll_data_def split: sum.splits if_splits)

lemma route_poll_step_pending:
  assumes "i < ROUTE_MAX_POLLS" "tpl eng taskId = Inr tid" "route_pending (poll rem i)"
  shows "route_poll eng res base key taskId rem i s =
         route_poll eng res base key taskId rem (Suc i)
           (route_sendEvent res (StatusEvent (route_pending_message i))
              (route_fetch_sent (poll_request base key tid) s))"
proof -
  from assms(3) obtain d where d: "route_poll_data (poll rem i) = Some d"
    and st: "task_status d \<noteq> SUCCEED" "task_status d \<noteq> FAILED"
    by (auto simp: route_pending_def split: option.splits)
  from route_poll_dataD[OF d] obtain pollRes where
    "poll rem i = Inr pollRes" "resp_ok pollRes" "resp_json pollRes = Inr d" "\<not> nullish d"
    by blast
  with assms(1,2) st show ?thesis
    by (subst route_poll.simps) (simp add: get_prop_def task_status_def)
qed

lemma route_poll_pending_run:
  assumes "tpl eng taskId = Inr tid" "has_write res"
  shows "i + n \<le> ROUTE_MAX_POLLS \<Longrightarrow>
         (\<forall>j. i \<le> j \<and> j < i + n \<longrightarrow> route_pending (poll rem j)) \<Longrightarrow>
         route_poll eng res base key taskId rem i s =
         route_poll eng res base key taskId rem (i + n) (route_pending_run base key tid i n s)"
proof (induction n arbitrary: i s)
  case 0
  then show ?case by (simp add: route_pending_run_def)
next
  case (Suc n)
  let ?s = "route_sendEvent res (StatusEvent (route_pending_message i))
              (route_fetch_sent (poll_request base key tid) s)"
  have "route_poll eng res base key taskId rem i s =
        route_poll eng res base key taskId rem (Suc i) ?s"
    using Suc.prems assms by (intro route_poll_step_pending) auto
  also have "\<dots> = route_poll eng res base key taskId rem (Suc i + n)
                     (route_pending_run base key tid (Suc i) n ?s)"
    using Suc.prems by (intro Suc.IH) auto
  also have "route_pending_run base key tid (Suc i) n ?s = route_pending_run base key tid i (Suc n) s"
  proof -
    have "[i..<i + Suc n] = i # [Suc i..<Suc i + n]"
      by (subst upt_rec) simp
    with assms(2) show ?thesis
      by (simp add: route_pending_run_def route_sendEvent_def called_def route_fetch_sent_def
          replicate_append_same del: upt_Suc)
  qed
  finally show ?case by simp
qed

lemma route_generate_stream:
  assumes "prompt_of b = Some p" "has_setHeader res"
  shows "route_generate eng res base penv b rem =
         route_task eng res base penv p rem \<lparr> res_calls = ROUTE_HEADER_CALLS, requested = [] \<rparr>"
  using prompt_ofD[OF assms(1)] assms(2)
  by (simp add: route_generate_def get_prop_def route_headers_def init_route_def
      ROUTE_HEADER_CALLS_def)

lemma route_try_submitted:
  assumes "submitted_task rem = Some taskId" "has_write res"
  shows "route_try eng res base key p rem \<lparr> res_calls = ROUTE_HEADER_CALLS, requested = [] \<rparr> =
         route_poll eng res base key taskId rem 0 (route_submitted base key p)"
  using submitted_taskD[OF assms(1)] assms(2)
  by (auto simp: route_try_def get_prop_def route_submitted_def route_sendEvent_def called_def
      route_fetch_sent_def Let_def)

lemma route_run_pending:
  assumes "submitted_task rem = Some taskId" "tpl eng taskId = Inr tid" "has_write res"
    "n \<le> ROUTE_MAX_POLLS" "\<forall>j<n. route_pending (poll rem j)"
  shows "route_try eng res base key p rem \<lparr> res_calls = ROUTE_HEADER_CALLS, requested = [] \<rparr> =
         route_poll eng res base key taskId rem n
           \<lparr> res_calls = ROUTE_HEADER_CALLS @ map ResWrite (route_progress n),
             requested = submit_request base key p # replicate n (poll_request base key tid) \<rparr>"
proof -
  have "route_poll eng res base key taskId rem 0 (route_submitted base key p) =
        route_poll eng res base key taskId rem (0 + n)
          (route_pending_run base key tid 0 n (route_submitted base key p))"
    using assms by (intro route_poll_pending_run) auto
  moreover have "route_pending_run base key tid 0 n (route_submitted base key p) =
     \<lparr> res_calls = ROUTE_HEADER_CALLS @ map ResWrite (route_progress n),
       requested = submit_request base key p # replicate n (poll_request base key tid) \<rparr>"
    by (simp add: route_pending_run_def route_submitted_def route_progress_def comp_def)
  ultimately show ?thesis
    using route_try_submitted[OF assms(1,3)] by simp
qed

lemma route_poll_step_succeed:
  assumes "i < ROUTE_MAX_POLLS" "tpl eng taskId = Inr tid" "route_succeeded eng (poll rem i) u"
  shows "route_poll eng res base key taskId rem i s =
         route_end eng res (route_sendEvent res (CompleteEvent MSG_COMPLETE u)
              (route_fetch_sent (poll_request base key tid) s))"
proof -
  from assms(3) obtain d where d: "route_poll_data (poll rem i) = Some d"
    and st: "task_status d = SUCCEED" "route_image_url eng d = Inr u"
    by (auto simp: route_succeeded_def split: option.splits)
  from route_poll_dataD[OF d] obtain pollRes where
    "poll rem i = Inr pollRes" "resp_ok pollRes" "resp_json pollRes = Inr d" "\<not> nullish d"
    by blast
  with assms(1,2) st show ?thesis
    by (subst route_poll.simps) (simp add: get_prop_def task_status_def)
qed

lemma route_succeed_run:
  assumes "streams res" "prompt_of b = Some p" "submitted_task rem = Some (JStr tid)"
    "n < ROUTE_MAX_POLLS" "\<forall>j<n. route_pending (poll rem j)"
    "route_succeeded eng (poll rem n) u"
  shows "route_generate eng res base penv b rem =
     (\<lparr> res_calls = ROUTE_HEADER_CALLS
          @ map ResWrite (route_progress n @ [CompleteEvent MSG_COMPLETE u]) @ [ResEnd],
        requested = submit_request base penv p # replicate (Suc n) (poll_request base penv tid) \<rparr>,
      None)"
proof -
  have t: "tpl eng (JStr tid) = Inr tid" by (simp add: tpl_def)
  from assms(1) have res: "has_setHeader res" "has_write res" "has_end res"
    by (simp_all add: streams_def)
  have "route_try eng res base penv p rem \<lparr> res_calls = ROUTE_HEADER_CALLS, requested = [] \<rparr> =
        route_poll eng res base penv (JStr tid) rem n
           \<lparr> res_calls = ROUTE_HEADER_CALLS @ map ResWrite (route_progress n),
             requested = submit_request base penv p # replicate n (poll_request base penv tid) \<rparr>"
    using assms res by (intro route_run_pending t) auto
  also have "\<dots> = (\<lparr> res_calls = ROUTE_HEADER_CALLS
          @ map ResWrite (route_progress n @ [CompleteEvent MSG_COMPLETE u]) @ [ResEnd],
        requested = submit_request base penv p # replicate (Suc n) (poll_request base penv tid) \<rparr>,
      None)"
    using assms(4,6) t res
    by (simp add: route_poll_step_succeed route_end_def route_sendEvent_def called_def
        route_fetch_sent_def replicate_append_same)
  finally show ?thesis
    by (simp add: route_generate_stream[OF assms(2) res(1)] route_task_def)
qed

section \<open>Timeout runs and concrete scenarios\<close>

lemma edge_poll_timeout:
  "\<not> i < EDGE_MAX_POLLS \<Longrightarrow>
   edge_poll eng key taskId rem i s = (writer_close (sendEvent (ErrorEvent MSG_TIMEOUT) s), None)"
  by (subst edge_poll.simps) simp

lemma route_poll_timeout:
  "\<not> i < ROUTE_MAX_POLLS \<Longrightarrow>
   route_poll eng res base key taskId rem i s =
   route_end eng res (route_sendEvent res (ErrorEvent MSG_TIMEOUT) s)"
  by (subst route_poll.simps) simp

lemma edge_timeout_run:
  assumes "prompt_of b = Some p" "submitted_task rem = Some taskId" "tpl eng taskId = Inr tid"
    "\<forall>j<EDGE_MAX_POLLS. edge_pending (poll rem j)"
  shows "onRequestPost eng key (Inr b) rem =
     (StreamReply EDGE_HEADERS,
      \<lparr> written = map Write (edge_progress EDGE_MAX_POLLS @ [ErrorEvent MSG_TIMEOUT]) @ [Close],
        fetched = submit_request BASE_URL key p
          # replicate EDGE_MAX_POLLS (poll_request BASE_URL key tid) \<rparr>)"
proof -
  have "edge_try eng key p rem init_task = edge_poll eng key taskId rem EDGE_MAX_POLLS
           \<lparr> written = map Write (edge_progress EDGE_MAX_POLLS),
             fetched = submit_request BASE_URL key p
               # replicate EDGE_MAX_POLLS (poll_request BASE_URL key tid) \<rparr>"
    using assms by (intro edge_run_pending) auto
  then show ?thesis
    by (simp add: onRequestPost_stream[OF assms(1)] edge_task_def edge_poll_timeout
        writer_close_def sendEvent_def)
qed

lemma route_timeout_run:
  assumes "streams res" "prompt_of b = Some p" "submitted_task rem = Some taskId"
    "tpl eng taskId = Inr tid" "\<forall>j<ROUTE_MAX_POLLS. route_pending (poll rem j)"
  shows "route_generate eng res base penv b rem =
     (\<lparr> res_calls = ROUTE_HEADER_CALLS
          @ map ResWrite (route_progress ROUTE_MAX_POLLS @ [ErrorEvent MSG_TIMEOUT]) @ [ResEnd],
        requested = submit_request base penv p
          # replicate ROUTE_MAX_POLLS (poll_request base penv tid) \<rparr>,
      None)"
proof -
  from assms(1) have res: "has_setHeader res" "has_write res" "has_end res"
    by (simp_all add: streams_def)
  have "route_try eng res base penv p rem \<lparr> res_calls = ROUTE_HEADER_CALLS, requested = [] \<rparr> =
        route_poll eng res base penv taskId rem ROUTE_MAX_POLLS
           \<lparr> res_calls = ROUTE_HEADER_CALLS @ map ResWrite (route_progress ROUTE_MAX_POLLS),
             requested = submit_request base penv p
               # replicate ROUTE_MAX_POLLS (poll_request base penv tid) \<rparr>"
    using assms res by (intro route_run_pending) auto
  then show ?thesis
    using res
    by (simp add: route_generate_stream[OF assms(2) res(1)] route_task_def route_poll_timeout
        route_end_def route_sendEvent_def called_def)
qed

lemma prompt_of_body0: "prompt_of body0 = Some (ascii '' a cat '')"
  by (simp add: prompt_of_def body0_def own_prop_def ascii_def trim_def is_white_space_def)

lemma submitted_accepted:
  "submit rem = accepted \<Longrightarrow> submitted_task rem = Some (JStr (ascii ''t1''))"
  by (simp add: submitted_task_def accepted_def json_response_def nullish_def own_prop_def)

lemma pending_PENDING: "edge_pending (Inr (json_response 200 (status_body ''PENDING'')))"
  by (simp add: edge_pending_def poll_data_def json_response_def status_body_def nullish_def
      task_status_def own_prop_def SUCCEED_def FAILED_def ascii_def)

lemma pending_SUCCEEDED: "edge_pending (Inr (json_response 200 (edge_image_body ''SUCCEEDED'')))"
  by (simp add: edge_pending_def poll_data_def json_response_def edge_image_body_def nullish_def
      task_status_def own_prop_def SUCCEED_def FAILED_def ascii_def)

lemma route_pending_PENDING: "route_pending (Inr (json_response 200 (status_body ''PENDING'')))"
  using pending_PENDING
  by (simp add: route_pending_def edge_pending_def route_poll_data_def json_response_def)

lemma tpl_JStr [simp]: "tpl eng (JStr s) = Inr s"
  by (simp add: tpl_def)

lemma streams_express_res: "streams express_res"
  by (simp add: streams_def express_res_def)

section \<open>A refused submit call\<close>

lemma edge_submit_refused:
  assumes "prompt_of b = Some p" "submit rem = Inr r" "\<not> resp_ok r" "resp_text r = Inr errText"
  shows "onRequestPost eng key (Inr b) rem =
     (StreamReply EDGE_HEADERS,
      \<lparr> written = [Write (StatusEvent MSG_SUBMITTING),
                   Write (ErrorEvent (MSG_API_FAILED @ errText)), Close],
        fetched = [submit_request BASE_URL key p] \<rparr>)"
  using assms(2-4)
  by (simp add: onRequestPost_stream[OF assms(1)] edge_task_def edge_try_def Let_def
      sendEvent_def fetch_sent_def writer_close_def init_task_def)

lemma route_submit_refused:
  assumes "streams res" "prompt_of b = Some p" "submit rem = Inr r" "\<not> resp_ok r"
    "resp_text r = Inr errText"
  shows "route_generate eng res base penv b rem =
     (\<lparr> res_calls = ROUTE_HEADER_CALLS
          @ [ResWrite (StatusEvent MSG_SUBMITTING),
             ResWrite (ErrorEvent (MSG_API_FAILED @ decimal (resp_status r) @ ascii '' ''
                                     @ errText)),
             ResEnd],
        requested = [submit_request base penv p] \<rparr>,
      None)"
proof -
  from assms(1) have res: "has_setHeader res" "has_write res" "has_end res"
    by (simp_all add: streams_def)
  show ?thesis
    using assms(3-5) res
    by (simp add: route_generate_stream[OF assms(2) res(1)] route_task_def route_try_def Let_def
        route_sendEvent_def route_fetch_sent_def route_end_def called_def)
qed

section \<open>Blank prompts\<close>

lemma edge_blank:
  assumes "\<not> nullish b" "blank_prompt (own_prop b (ascii ''prompt''))"
  shows "onRequestPost eng key (Inr b) rem = (edge_rejection, init_task)"
  using assms
  by (auto simp: onRequestPost_def get_prop_def blank_prompt_def split: jsval.splits)

lemma route_blank:
  assumes "\<not> nullish b" "blank_prompt (own_prop b (ascii ''prompt''))"
  shows "route_generate eng res base penv b rem = route_rejection eng res init_route"
  using assms
  by (auto simp: route_generate_def get_prop_def blank_prompt_def split: jsval.splits)

lemma route_rejection_requested: "requested (fst (route_rejection eng res init_route)) = []"
  by (simp add: route_rejection_def init_route_def called_def Let_def)

section \<open>A failed job\<close>

lemma failure_reason_field:
  assumes "\<not> nullish d" "reason_field d = m" "m = JStr r \<or> m = JUndefined"
  shows "failure_reason eng d fb = Inr (JStr (if m = JStr r \<and> r \<noteq> [] then r else fb))"
proof (cases "nullish (own_prop d (ascii ''error''))")
  case True
  then have "reason_field d = JUndefined"
    by (auto simp: reason_field_def nullish_def own_prop_def)
  with True assms show ?thesis
    by (auto simp: failure_reason_def get_prop_def)
next
  case False
  with assms show ?thesis
    by (auto simp: failure_reason_def get_prop_def reason_field_def)
qed

lemma edge_poll_step_failed:
  assumes "i < EDGE_MAX_POLLS" "tpl eng taskId = Inr tid" "edge_failed (poll rem i) m"
    "m = JStr r \<or> m = JUndefined"
  shows "edge_poll eng key taskId rem i s =
         (writer_close
            (sendEvent
               (ErrorEvent (EDGE_MSG_FAILED @ (if m = JStr r \<and> r \<noteq> [] then r else EDGE_MSG_UNKNOWN)))
               (fetch_sent (poll_request BASE_URL key tid) s)), None)"
proof -
  from assms(3) obtain d where d: "poll_data (poll rem i) = Some d"
    and st: "task_status d = FAILED" "reason_field d = m"
    by (auto simp: edge_failed_def split: option.splits)
  from poll_dataD[OF d] obtain pollRes where
    p: "poll rem i = Inr pollRes" "resp_json pollRes = Inr d" "\<not> nullish d" by blast
  have ne: "FAILED \<noteq> SUCCEED"
    by (simp add: FAILED_def SUCCEED_def ascii_def)
  from assms(1,2) st p ne show ?thesis
    by (subst edge_poll.simps)
      (simp add: get_prop_def task_status_def failure_reason_field[OF p(3) st(2) assms(4)])
qed

lemma route_poll_step_failed:
  assumes "i < ROUTE_MAX_POLLS" "tpl eng taskId = Inr tid" "route_failed (poll rem i) m"
    "m = JStr r \<or> m = JUndefined"
  shows "route_poll eng res base key taskId rem i s =
         route_end eng res
            (route_sendEvent res
               (ErrorEvent (ROUTE_MSG_FAILED @ (if m = JStr r \<and> r \<noteq> [] then r else ROUTE_MSG_UNKNOWN)))
               (route_fetch_sent (poll_request base key tid) s))"
proof -
  from assms(3) obtain d where d: "route_poll_data (poll rem i) = Some d"
    and st: "task_status d = FAILED" "reason_field d = m"
    by (auto simp: route_failed_def split: option.splits)
  from route_poll_dataD[OF d] obtain pollRes where
    p: "poll rem i = Inr pollRes" "resp_ok pollRes" "resp_json pollRes = Inr d" "\<not> nullish d"
    by blast
  have ne: "FAILED \<noteq> SUCCEED"
    by (simp add: FAILED_def SUCCEED_def ascii_def)
  from assms(1,2) st p ne show ?thesis
    by (subst route_poll.simps)
      (simp add: get_prop_def task_status_def failure_reason_field[OF p(4) st(2) assms(4)])
qed

lemma edge_failed_run:
  assumes "prompt_of b = Some p" "submitted_task rem = Some (JStr tid)"
    "n < EDGE_MAX_POLLS" "\<forall>j<n. edge_pending (poll rem j)"
    "edge_failed (poll rem n) m" "m = JStr r \<or> m = JUndefined"
  shows "onRequestPost eng key (Inr b) rem =
     (StreamReply EDGE_HEADERS,
      \<lparr> written = map Write (edge_progress n
            @ [ErrorEvent (EDGE_MSG_FAILED @ (if m = JStr r \<and> r \<noteq> [] then r else EDGE_MSG_UNKNOWN))])
          @ [Close],
        fetched = submit_request BASE_URL key p # replicate (Suc n) (poll_request BASE_URL key tid) \<rparr>)"
proof -
  have "edge_try eng key p rem init_task = edge_poll eng key (JStr tid) rem n
           \<lparr> written = map Write (edge_progress n),
             fetched = submit_request BASE_URL key p # replicate n (poll_request BASE_URL key tid) \<rparr>"
    using assms by (intro edge_run_pending) auto
  also have "\<dots> = (\<lparr> written = map Write (edge_progress n
            @ [ErrorEvent (EDGE_MSG_FAILED @ (if m = JStr r \<and> r \<noteq> [] then r else EDGE_MSG_UNKNOWN))])
          @ [Close],
        fetched = submit_request BASE_URL key p # replicate (Suc n) (poll_request BASE_URL key tid) \<rparr>, None)"
    using edge_poll_step_failed [OF assms(3) tpl_JStr assms(5,6)]
    by (simp add: writer_close_def sendEvent_def fetch_sent_def replicate_append_same)
  finally show ?thesis
    by (simp add: onRequestPost_stream[OF assms(1)] edge_task_def)
qed

lemma route_failed_run:
  assumes "streams res" "prompt_of b = Some p" "submitted_task rem = Some (JStr tid)"
    "n < ROUTE_MAX_POLLS" "\<forall>j<n. route_pending (poll rem j)"
    "route_failed (poll rem n) m" "m = JStr r \<or> m = JUndefined"
  shows "route_generate eng res base penv b rem =
     (\<lparr> res_calls = ROUTE_HEADER_CALLS
          @ map ResWrite (route_progress n
              @ [ErrorEvent (ROUTE_MSG_FAILED @ (if m = JStr r \<and> r \<noteq> [] then r else ROUTE_MSG_UNKNOWN))])
          @ [ResEnd],
        requested = submit_request base penv p # replicate (Suc n) (poll_request base penv tid) \<rparr>,
      None)"
proof -
  from assms(1) have res: "has_setHeader res" "has_write res" "has_end res"
    by (simp_all add: streams_def)
  have "route_try eng res base penv p rem \<lparr> res_calls = ROUTE_HEADER_CALLS, requested = [] \<rparr> =
        route_poll eng res base penv (JStr tid) rem n
           \<lparr> res_calls = ROUTE_HEADER_CALLS @ map ResWrite (route_progress n),
             requested = submit_request base penv p # replicate n (poll_request base penv tid) \<rparr>"
    using assms res by (intro route_run_pending) auto
  also have "\<dots> = (\<lparr> res_calls = ROUTE_HEADER_CALLS
          @ map ResWrite (route_progress n
              @ [ErrorEvent (ROUTE_MSG_FAILED @ (if m = JStr r \<and> r \<noteq> [] then r else ROUTE_MSG_UNKNOWN))])
          @ [ResEnd],
        requested = submit_request base penv p # replicate (Suc n) (poll_request base penv tid) \<rparr>,
      None)"
    using route_poll_step_failed [OF assms(4) tpl_JStr assms(6,7)] res
    by (simp add: route_end_def route_sendEvent_def called_def route_fetch_sent_def
        replicate_append_same)
  finally show ?thesis
    by (simp add: route_generate_stream[OF assms(2) res(1)] route_task_def)
qed

section \<open>The shape of the stream\<close>

text \<open>
  The poll loop keeps the stream a sequence of status writes until it finishes it; an error
  thrown in the loop leaves it so, and the \<open>catch\<close> finishes it.
\<close>

lemma status_writes_simps [simp]:
  "status_writes []"
  "status_writes (ws @ [Write e]) \<longleftrightarrow> status_writes ws \<and> is_status e"
  by (simp_all add: status_writes_def)

lemma finishedI: "status_writes ws \<Longrightarrow> terminal t \<Longrightarrow> finished (ws @ [Write t, Close])"
  by (simp add: finished_def)

lemma finished_iff:
  "finished ops \<longleftrightarrow> (\<exists>ws t. ops = ws @ [Write t, Close] \<and> status_writes ws \<and> terminal t)"
proof
  assume "finished ops"
  then obtain t ws where "rev ops = Close # Write t # ws" "terminal t" "status_writes (rev ws)"
    by (auto simp: finished_def split: list.splits writer_op.splits)
  moreover from this have "ops = rev ws @ [Write t, Close]"
    by (simp add: rev_swap)
  ultimately show "\<exists>ws t. ops = ws @ [Write t, Close] \<and> status_writes ws \<and> terminal t"
    by blast
qed (auto intro: finishedI)

lemma written_fetch_sent [simp]: "written (fetch_sent r s) = written s"
  by (simp add: fetch_sent_def)

lemma status_writes_sendEvent [simp]:
  "status_writes (written (sendEvent e s)) \<longleftrightarrow> status_writes (written s) \<and> is_status e"
  by (simp add: sendEvent_def)

lemma finished_close [simp]:
  "status_writes (written s) \<Longrightarrow> terminal e \<Longrightarrow>
   finished (written (writer_close (sendEvent e s)))"
  by (simp add: sendEvent_def writer_close_def finishedI)

lemma status_writes_init [simp]: "status_writes (written init_task)"
  by (simp add: init_task_def)

lemma edge_poll_shape:
  "status_writes (written s) \<Longrightarrow>
   (case edge_poll eng key taskId rem i s of
      (s', None) \<Rightarrow> finished (written s')
    | (s', Some e) \<Rightarrow> status_writes (written s'))"
proof (induction eng key taskId rem i s rule: edge_poll.induct)
  case (1 eng key taskId rem i s)
  show ?case
    using "1.prems" "1.IH"
    by (subst edge_poll.simps) (auto simp: Let_def split: sum.splits)
qed

lemma edge_try_shape:
  "case edge_try eng key p rem init_task of
     (s', None) \<Rightarrow> finished (written s')
   | (s', Some e) \<Rightarrow> status_writes (written s')"
proof -
  let ?s2 = "fetch_sent (submit_request BASE_URL key p)
               (sendEvent (StatusEvent MSG_SUBMITTING) init_task)"
  have "\<And>taskId. case edge_poll eng key taskId rem 0 (sendEvent (StatusEvent MSG_SUBMITTED) ?s2) of
          (s', None) \<Rightarrow> finished (written s')
        | (s', Some e) \<Rightarrow> status_writes (written s')"
    by (rule edge_poll_shape) simp
  then show ?thesis
    by (auto simp: edge_try_def Let_def split: sum.splits)
qed

lemma edge_task_finished: "finished (written (edge_task eng key p rem init_task))"
  using edge_try_shape [of eng key p rem]
  by (auto simp: edge_task_def split: prod.splits option.splits)

lemma stream_ops_append [simp]: "stream_ops (xs @ ys) = stream_ops xs @ stream_ops ys"
  by (induction xs rule: stream_ops.induct) simp_all

lemma stream_ops_headers [simp]: "stream_ops ROUTE_HEADER_CALLS = []"
  by (simp add: ROUTE_HEADER_CALLS_def SSE_HEADERS_def)

lemma res_calls_route_fetch_sent [simp]: "res_calls (route_fetch_sent r s) = res_calls s"
  by (simp add: route_fetch_sent_def)

lemma status_writes_route_sendEvent [simp]:
  "has_write res \<Longrightarrow>
   status_writes (stream_ops (res_calls (route_sendEvent res e s))) \<longleftrightarrow>
   status_writes (stream_ops (res_calls s)) \<and> is_status e"
  by (simp add: route_sendEvent_def called_def)

lemma route_end_shape:
  assumes "has_write res" "has_end res" "status_writes (stream_ops (res_calls s))" "terminal e"
  shows "case route_end eng res (route_sendEvent res e s) of
           (s', None) \<Rightarrow> finished (stream_ops (res_calls s'))
         | (s', Some e) \<Rightarrow> status_writes (stream_ops (res_calls s'))"
  using assms by (simp add: route_end_def route_sendEvent_def called_def finishedI)

lemma route_poll_shape:
  "has_write res \<Longrightarrow> has_end res \<Longrightarrow> status_writes (stream_ops (res_calls s)) \<Longrightarrow>
   (case route_poll eng res base key taskId rem i s of
      (s', None) \<Rightarrow> finished (stream_ops (res_calls s'))
    | (s', Some e) \<Rightarrow> status_writes (stream_ops (res_calls s')))"
proof (induction eng res base key taskId rem i s rule: route_poll.induct)
  case (1 eng res base key taskId rem i s)
  show ?case
    using "1.prems" "1.IH" route_end_shape [OF "1.prems"(1,2)]
    by (subst route_poll.simps) (auto simp: Let_def split: sum.splits)
qed

lemma route_try_shape:
  assumes "has_write res" "has_end res"
  shows "case route_try eng res base key p rem \<lparr> res_calls = ROUTE_HEADER_CALLS, requested = [] \<rparr> of
           (s', None) \<Rightarrow> finished (stream_ops (res_calls s'))
         | (s', Some e) \<Rightarrow> status_writes (stream_ops (res_calls s'))"
proof -
  let ?s0 = "\<lparr> res_calls = ROUTE_HEADER_CALLS, requested = [] \<rparr>"
  let ?s2 = "route_fetch_sent (submit_request base key p)
               (route_sendEvent res (StatusEvent MSG_SUBMITTING) ?s0)"
  have s2: "status_writes (stream_ops (res_calls ?s2))"
    using assms by simp
  have "\<And>taskId. case route_poll eng res base key taskId rem 0
                       (route_sendEvent res (StatusEvent MSG_SUBMITTED) ?s2) of
          (s', None) \<Rightarrow> finished (stream_ops (res_calls s'))
        | (s', Some e) \<Rightarrow> status_writes (stream_ops (res_calls s'))"
    using assms by (intro route_poll_shape) simp_all
  then show ?thesis
    using s2 route_end_shape [OF assms s2] by (auto simp: route_try_def Let_def split: sum.splits)
qed

lemma route_task_finished:
  assumes "has_write res" "has_end res"
  shows "snd (route_task eng res base key p rem \<lparr> res_calls = ROUTE_HEADER_CALLS, requested = [] \<rparr>) = None
    \<and> finished (stream_ops (res_calls (fst (route_task eng res base key p rem
          \<lparr> res_calls = ROUTE_HEADER_CALLS, requested = [] \<rparr>))))"
proof -
  let ?t = "route_try eng res base key p rem \<lparr> res_calls = ROUTE_HEADER_CALLS, requested = [] \<rparr>"
  show ?thesis
  proof (cases "snd ?t")
    case None
    with route_try_shape [OF assms, of eng base key p rem] show ?thesis
      by (auto simp: route_task_def split: prod.splits)
  next
    case (Some err)
    with route_try_shape [OF assms, of eng base key p rem]
    have "status_writes (stream_ops (res_calls (fst ?t)))"
      by (auto split: prod.splits)
    from route_end_shape [OF assms this, of "ErrorEvent (MSG_SERVER_ERROR @ err_message err)" eng]
      Some assms
    show ?thesis
      by (auto simp: route_task_def route_end_def split: prod.splits)
  qed
qed

section \<open>The stream and the requests only grow\<close>

text \<open>
  A poll that is not pending ends the loop after its one request; so the loop only appends
  to what was written and sent before it.
\<close>

lemma edge_poll_no_tid:
  "i < EDGE_MAX_POLLS \<Longrightarrow> tpl eng taskId = Inl e \<Longrightarrow>
   edge_poll eng key taskId rem i s = (s, Some e)"
  by (subst edge_poll.simps) simp

lemma route_poll_no_tid:
  "i < ROUTE_MAX_POLLS \<Longrightarrow> tpl eng taskId = Inl e \<Longrightarrow>
   route_poll eng res base key taskId rem i s = (s, Some e)"
  by (subst route_poll.simps) simp

lemma edge_poll_stop:
  assumes "i < EDGE_MAX_POLLS" "tpl eng taskId = Inr tid" "\<not> edge_pending (poll rem i)"
  shows "prefix (written s) (written (fst (edge_poll eng key taskId rem i s)))"
    and "fetched (fst (edge_poll eng key taskId rem i s)) =
         fetched s @ [poll_request BASE_URL key tid]"
  using assms
  by (subst edge_poll.simps;
      auto simp: Let_def sendEvent_def writer_close_def fetch_sent_def edge_pending_def
        poll_data_def task_status_def get_prop_def split: sum.splits if_splits)+

lemma route_poll_stop:
  assumes "i < ROUTE_MAX_POLLS" "tpl eng taskId = Inr tid" "\<not> route_pending (poll rem i)"
  shows "prefix (res_calls s) (res_calls (fst (route_poll eng res base key taskId rem i s)))"
    and "requested (fst (route_poll eng res base key taskId rem i s)) =
         requested s @ [poll_request base key tid]"
  using assms
  by (subst route_poll.simps;
      auto simp: Let_def route_sendEvent_def route_end_def called_def route_fetch_sent_def
        route_pending_def route_poll_data_def poll_data_def task_status_def get_prop_def
        split: sum.splits if_splits)+

lemma edge_poll_prefix:
  "prefix (written s) (written (fst (edge_poll eng key taskId rem i s)))
   \<and> prefix (fetched s) (fetched (fst (edge_poll eng key taskId rem i s)))"
proof (induction "EDGE_MAX_POLLS - i" arbitrary: i s)
  case 0
  then show ?case
    by (simp add: edge_poll_timeout sendEvent_def writer_close_def)
next
  case (Suc n)
  then have i: "i < EDGE_MAX_POLLS" by simp
  show ?case
  proof (cases "tpl eng taskId")
    case (Inl e)
    with i show ?thesis by (simp add: edge_poll_no_tid)
  next
    case (Inr tid)
    show ?thesis
    proof (cases "edge_pending (poll rem i)")
      case True
      let ?s = "sendEvent (StatusEvent (edge_pending_message i))
                  (fetch_sent (poll_request BASE_URL key tid) s)"
      have "n = EDGE_MAX_POLLS - Suc i" using Suc.hyps(2) by simp
      from Suc.hyps(1) [OF this, of ?s]
      show ?thesis
        by (auto simp: edge_poll_step_pending [OF i Inr True] sendEvent_def fetch_sent_def
            dest: append_prefixD)
    next
      case False
      from edge_poll_stop [OF i Inr False] show ?thesis by simp
    qed
  qed
qed

lemma edge_poll_first_fetch:
  assumes "i < EDGE_MAX_POLLS" "tpl eng taskId = Inr tid"
  shows "prefix (written s) (written (fst (edge_poll eng key taskId rem i s)))
       \<and> prefix (fetched s @ [poll_request BASE_URL key tid])
           (fetched (fst (edge_poll eng key taskId rem i s)))"
proof (cases "edge_pending (poll rem i)")
  case True
  let ?s = "sendEvent (StatusEvent (edge_pending_message i))
              (fetch_sent (poll_request BASE_URL key tid) s)"
  from edge_poll_prefix [of ?s eng key taskId rem "Suc i"]
  show ?thesis
    by (auto simp: edge_poll_step_pending [OF assms True] sendEvent_def fetch_sent_def
        dest: append_prefixD)
next
  case False
  from edge_poll_stop [OF assms False] show ?thesis by simp
qed

lemma route_poll_prefix:
  "prefix (res_calls s) (res_calls (fst (route_poll eng res base key taskId rem i s)))
   \<and> prefix (requested s) (requested (fst (route_poll eng res base key taskId rem i s)))"
proof (induction "ROUTE_MAX_POLLS - i" arbitrary: i s)
  case 0
  then show ?case
    by (simp add: route_poll_timeout route_sendEvent_def route_end_def called_def)
next
  case (Suc n)
  then have i: "i < ROUTE_MAX_POLLS" by simp
  show ?case
  proof (cases "tpl eng taskId")
    case (Inl e)
    with i show ?thesis by (simp add: route_poll_no_tid)
  next
    case (Inr tid)
    show ?thesis
    proof (cases "route_pending (poll rem i)")
      case True
      let ?s = "route_sendEvent res (StatusEvent (route_pending_message i))
                  (route_fetch_sent (poll_request base key tid) s)"
      have "n = ROUTE_MAX_POLLS - Suc i" using Suc.hyps(2) by simp
      from Suc.hyps(1) [OF this, of ?s]
      show ?thesis
        by (auto simp: route_poll_step_pending [OF i Inr True] route_sendEvent_def called_def
            route_fetch_sent_def dest: append_prefixD)
    next
      case False
      from route_poll_stop [OF i Inr False] show ?thesis by simp
    qed
  qed
qed

lemma route_poll_first_fetch:
  assumes "i < ROUTE_MAX_POLLS" "tpl eng taskId = Inr tid"
  shows "prefix (res_calls s) (res_calls (fst (route_poll eng res base key taskId rem i s)))
       \<and> prefix (requested s @ [poll_request base key tid])
           (requested (fst (route_poll eng res base key taskId rem i s)))"
proof (cases "route_pending (poll rem i)")
  case True
  let ?s = "route_sendEvent res (StatusEvent (route_pending_message i))
              (route_fetch_sent (poll_request base key tid) s)"
  from route_poll_prefix [of ?s eng res base key taskId rem "Suc i"]
  show ?thesis
    by (auto simp: route_poll_step_pending [OF assms True] route_sendEvent_def called_def
        route_fetch_sent_def dest: append_prefixD)
next
  case False
  from route_poll_stop [OF assms False] show ?thesis by simp
qed

lemma tpl_JUndefined [simp]: "tpl eng JUndefined = Inr (ascii ''undefined'')"
  by (simp add: tpl_def)

lemma edge_missing_task_id:
  assumes "prompt_of b = Some p" "submitted_task rem = Some JUndefined"
  shows "fst (onRequestPost eng key (Inr b) rem) = StreamReply EDGE_HEADERS
    \<and> prefix [Write (StatusEvent MSG_SUBMITTING), Write (StatusEvent MSG_SUBMITTED)]
           (written (snd (onRequestPost eng key (Inr b) rem)))
    \<and> prefix [submit_request BASE_URL key p, poll_request BASE_URL key (ascii ''undefined'')]
           (fetched (snd (onRequestPost eng key (Inr b) rem)))"
proof -
  let ?r = "edge_poll eng key JUndefined rem 0 (edge_submitted key p)"
  have "0 < EDGE_MAX_POLLS" by (simp add: EDGE_MAX_POLLS_def)
  from edge_poll_first_fetch [OF this tpl_JUndefined, of "edge_submitted key p" eng key rem]
  have w: "prefix [Write (StatusEvent MSG_SUBMITTING), Write (StatusEvent MSG_SUBMITTED)]
             (written (fst ?r))"
    and f: "prefix [submit_request BASE_URL key p,
                    poll_request BASE_URL key (ascii ''undefined'')] (fetched (fst ?r))"
    by (simp_all add: edge_submitted_def)
  have "edge_task eng key p rem init_task = fst ?r
      \<or> (\<exists>e. edge_task eng key p rem init_task = writer_close (sendEvent e (fst ?r)))"
    by (auto simp: edge_task_def edge_try_submitted[OF assms(2)] split: prod.splits option.splits)
  with w f show ?thesis
    by (auto simp: onRequestPost_stream[OF assms(1)] sendEvent_def writer_close_def
        intro: prefix_order.trans)
qed

lemma route_missing_task_id:
  assumes "streams res" "prompt_of b = Some p" "submitted_task rem = Some JUndefined"
  shows "prefix (ROUTE_HEADER_CALLS
             @ [ResWrite (StatusEvent MSG_SUBMITTING), ResWrite (StatusEvent MSG_SUBMITTED)])
           (res_calls (fst (route_generate eng res base penv b rem)))
    \<and> prefix [submit_request base penv p, poll_request base penv (ascii ''undefined'')]
           (requested (fst (route_generate eng res base penv b rem)))"
proof -
  from assms(1) have res: "has_setHeader res" "has_write res" "has_end res"
    by (simp_all add: streams_def)
  let ?r = "route_poll eng res base penv JUndefined rem 0 (route_submitted base penv p)"
  have "0 < ROUTE_MAX_POLLS" by (simp add: ROUTE_MAX_POLLS_def)
  from route_poll_first_fetch [OF this tpl_JUndefined, of "route_submitted base penv p" eng res
      base penv rem]
  have w: "prefix (ROUTE_HEADER_CALLS
             @ [ResWrite (StatusEvent MSG_SUBMITTING), ResWrite (StatusEvent MSG_SUBMITTED)])
             (res_calls (fst ?r))"
    and f: "prefix [submit_request base penv p, poll_request base penv (ascii ''undefined'')]
             (requested (fst ?r))"
    by (simp_all add: route_submitted_def)
  let ?s0 = "\<lparr> res_calls = ROUTE_HEADER_CALLS, requested = [] \<rparr>"
  have "fst (route_task eng res base penv p rem ?s0) = fst ?r
      \<or> (\<exists>e. fst (route_task eng res base penv p rem ?s0)
              = called ResEnd (called (ResWrite e) (fst ?r)))"
    using res
    by (auto simp: route_task_def route_try_submitted[OF assms(3) res(2)] route_end_def
        route_sendEvent_def split: prod.splits option.splits)
  with w f show ?thesis
    by (auto simp: route_generate_stream[OF assms(2) res(1)] called_def
        intro: prefix_order.trans)
qed

section \<open>Independence of the API key\<close>

lemma edge_poll_stop_key:
  assumes "i < EDGE_MAX_POLLS" "tpl eng taskId = Inr tid" "\<not> edge_pending (poll rem i)"
    "written s = written s'"
  shows "written (fst (edge_poll eng key taskId rem i s)) =
         written (fst (edge_poll eng key' taskId rem i s'))
       \<and> snd (edge_poll eng key taskId rem i s) = snd (edge_poll eng key' taskId rem i s')"
  using assms
  by (simp add: edge_poll.simps [of eng key taskId rem i s]
        edge_poll.simps [of eng key' taskId rem i s'])
     (auto simp: Let_def sendEvent_def writer_close_def fetch_sent_def edge_pending_def
        poll_data_def task_status_def get_prop_def split: sum.splits if_splits)

lemma edge_poll_key:
  "written s = written s' \<Longrightarrow>
   written (fst (edge_poll eng key taskId rem i s)) =
   written (fst (edge_poll eng key' taskId rem i s'))
   \<and> snd (edge_poll eng key taskId rem i s) = snd (edge_poll eng key' taskId rem i s')"
proof (induction "EDGE_MAX_POLLS - i" arbitrary: i s s')
  case 0
  then show ?case
    by (simp add: edge_poll_timeout sendEvent_def writer_close_def)
next
  case (Suc n)
  then have i: "i < EDGE_MAX_POLLS" by simp
  show ?case
  proof (cases "tpl eng taskId")
    case (Inl e)
    with i Suc.prems show ?thesis by (simp add: edge_poll_no_tid)
  next
    case (Inr tid)
    show ?thesis
    proof (cases "edge_pending (poll rem i)")
      case True
      let ?e = "StatusEvent (edge_pending_message i)"
      have "n = EDGE_MAX_POLLS - Suc i" using Suc.hyps(2) by simp
      from Suc.hyps(1) [OF this,
          of "sendEvent ?e (fetch_sent (poll_request BASE_URL key tid) s)"
             "sendEvent ?e (fetch_sent (poll_request BASE_URL key' tid) s')"]
        Suc.prems
      show ?thesis
        by (simp add: edge_poll_step_pending [OF i Inr True] sendEvent_def fetch_sent_def)
    next
      case False
      from edge_poll_stop_key [OF i Inr False Suc.prems] show ?thesis .
    qed
  qed
qed

lemma edge_task_key:
  "written (edge_task eng key p rem init_task) = written (edge_task eng key' p rem init_task)"
proof -
  have "written (fst (edge_try eng key p rem init_task)) =
        written (fst (edge_try eng key' p rem init_task))
      \<and> snd (edge_try eng key p rem init_task) = snd (edge_try eng key' p rem init_task)"
    using edge_poll_key [of
        "sendEvent (StatusEvent MSG_SUBMITTED) (fetch_sent (submit_request BASE_URL key p)
           (sendEvent (StatusEvent MSG_SUBMITTING) init_task))"
        "sendEvent (StatusEvent MSG_SUBMITTED) (fetch_sent (submit_request BASE_URL key' p)
           (sendEvent (StatusEvent MSG_SUBMITTING) init_task))"
        eng key _ rem 0 key']
    by (auto simp: edge_try_def Let_def sendEvent_def writer_close_def fetch_sent_def
        split: sum.splits)
  then show ?thesis
    by (auto simp: edge_task_def sendEvent_def writer_close_def split: prod.splits option.splits)
qed

lemma onRequestPost_key:
  "fst (onRequestPost eng key body rem) = fst (onRequestPost eng key' body rem)
   \<and> written (snd (onRequestPost eng key body rem)) =
     written (snd (onRequestPost eng key' body rem))"
  using edge_task_key [of eng key _ rem key']
  by (auto simp: onRequestPost_def split: sum.splits jsval.splits)

lemma route_poll_stop_key:
  assumes "i < ROUTE_MAX_POLLS" "tpl eng taskId = Inr tid" "\<not> route_pending (poll rem i)"
    "res_calls s = res_calls s'"
  shows "res_calls (fst (route_poll eng res base key taskId rem i s)) =
         res_calls (fst (route_poll eng res base key' taskId rem i s'))
       \<and> snd (route_poll eng res base key taskId rem i s) =
         snd (route_poll eng res base key' taskId rem i s')"
  using assms
  by (simp add: route_poll.simps [of eng res base key taskId rem i s]
        route_poll.simps [of eng res base key' taskId rem i s'])
     (auto simp: Let_def route_sendEvent_def route_end_def called_def route_fetch_sent_def
        route_pending_def route_poll_data_def poll_data_def task_status_def get_prop_def
        split: sum.splits if_splits)

lemma route_poll_key:
  "res_calls s = res_calls s' \<Longrightarrow>
   res_calls (fst (route_poll eng res base key taskId rem i s)) =
   res_calls (fst (route_poll eng res base key' taskId rem i s'))
   \<and> snd (route_poll eng res base key taskId rem i s) =
     snd (route_poll eng res base key' taskId rem i s')"
proof (induction "ROUTE_MAX_POLLS - i" arbitrary: i s s')
  case 0
  then show ?case
    by (simp add: route_poll_timeout route_sendEvent_def route_end_def called_def)
next
  case (Suc n)
  then have i: "i < ROUTE_MAX_POLLS" by simp
  show ?case
  proof (cases "tpl eng taskId")
    case (Inl e)
    with i Suc.prems show ?thesis by (simp add: route_poll_no_tid)
  next
    case (Inr tid)
    show ?thesis
    proof (cases "route_pending (poll rem i)")
      case True
      let ?e = "StatusEvent (route_pending_message i)"
      have "n = ROUTE_MAX_POLLS - Suc i" using Suc.hyps(2) by simp
      from Suc.hyps(1) [OF this,
          of "route_sendEvent res ?e (route_fetch_sent (poll_request base key tid) s)"
             "route_sendEvent res ?e (route_fetch_sent (poll_request base key' tid) s')"]
        Suc.prems
      show ?thesis
        by (simp add: route_poll_step_pending [OF i Inr True] route_sendEvent_def called_def
            route_fetch_sent_def)
    next
      case False
      from route_poll_stop_key [OF i Inr False Suc.prems] show ?thesis .
    qed
  qed
qed

lemma route_task_key:
  assumes "res_calls s = res_calls s'"
  shows "res_calls (fst (route_task eng res base key p rem s)) =
         res_calls (fst (route_task eng res base key' p rem s'))
       \<and> snd (route_task eng res base key p rem s) = snd (route_task eng res base key' p rem s')"
proof -
  have "res_calls (fst (route_try eng res base key p rem s)) =
        res_calls (fst (route_try eng res base key' p rem s'))
      \<and> snd (route_try eng res base key p rem s) = snd (route_try eng res base key' p rem s')"
    using assms route_poll_key [of
        "route_sendEvent res (StatusEvent MSG_SUBMITTED)
           (route_fetch_sent (submit_request base key p)
              (route_sendEvent res (StatusEvent MSG_SUBMITTING) s))"
        "route_sendEvent res (StatusEvent MSG_SUBMITTED)
           (route_fetch_sent (submit_request base key' p)
              (route_sendEvent res (StatusEvent MSG_SUBMITTING) s'))"
        eng res base key _ rem 0 key']
    by (auto simp: route_try_def Let_def route_sendEvent_def route_end_def called_def
        route_fetch_sent_def split: sum.splits)
  then show ?thesis
    by (auto simp: route_task_def route_sendEvent_def route_end_def called_def
        split: prod.splits option.splits)
qed

lemma route_generate_key:
  "res_calls (fst (route_generate eng res base penv b rem)) =
   res_calls (fst (route_generate eng res base penv' b rem))
   \<and> snd (route_generate eng res base penv b rem) = snd (route_generate eng res base penv' b rem)"
  using route_task_key [of _ _ eng res base penv _ rem penv']
  by (auto simp: route_generate_def split: sum.splits jsval.splits prod.splits option.splits)

lemma module_exports_key:
  "fst (snd (module_exports eng g key b rem)) = fst (snd (module_exports eng g' key' b rem))
   \<and> snd (snd (snd (module_exports eng g key b rem))) =
     snd (snd (snd (module_exports eng g' key' b rem)))"
  using route_generate_key [of eng fakeRes_methods BASE_URL key b rem key']
  by (auto simp: module_exports_def Let_def split: prod.splits)

section \<open>What a pending poll leaves behind\<close>

text \<open>
  After a poll that is taken as pending, what the loop returns begins with what was written
  and sent before, the request of that poll and the pending status; with an iteration left
  the next request is a poll again, without one the loop ends in the timeout.
\<close>

lemma edge_pending_observed:
  assumes "i < EDGE_MAX_POLLS" "tpl eng taskId = Inr tid" "edge_pending (poll rem i)"
  shows "prefix (written s @ [Write (StatusEvent (edge_pending_message i))])
           (written (fst (edge_poll eng key taskId rem i s)))"
    and "prefix (fetched s @ [poll_request BASE_URL key tid])
           (fetched (fst (edge_poll eng key taskId rem i s)))"
    and "i + 1 < EDGE_MAX_POLLS \<Longrightarrow>
         prefix (fetched s @ [poll_request BASE_URL key tid, poll_request BASE_URL key tid])
           (fetched (fst (edge_poll eng key taskId rem i s)))"
    and "\<not> i + 1 < EDGE_MAX_POLLS \<Longrightarrow>
         edge_poll eng key taskId rem i s =
           (s\<lparr> written := written s @ [Write (StatusEvent (edge_pending_message i)),
                                        Write (ErrorEvent MSG_TIMEOUT), Close],
               fetched := fetched s @ [poll_request BASE_URL key tid] \<rparr>, None)"
proof -
  let ?s = "sendEvent (StatusEvent (edge_pending_message i))
              (fetch_sent (poll_request BASE_URL key tid) s)"
  have step: "edge_poll eng key taskId rem i s = edge_poll eng key taskId rem (Suc i) ?s"
    by (rule edge_poll_step_pending [OF assms])
  from edge_poll_prefix [of ?s eng key taskId rem "Suc i"]
  show "prefix (written s @ [Write (StatusEvent (edge_pending_message i))])
           (written (fst (edge_poll eng key taskId rem i s)))"
    and "prefix (fetched s @ [poll_request BASE_URL key tid])
           (fetched (fst (edge_poll eng key taskId rem i s)))"
    by (simp_all add: step sendEvent_def fetch_sent_def)
  show "prefix (fetched s @ [poll_request BASE_URL key tid, poll_request BASE_URL key tid])
           (fetched (fst (edge_poll eng key taskId rem i s)))" if "i + 1 < EDGE_MAX_POLLS"
    using edge_poll_first_fetch [of "Suc i" eng taskId tid ?s key rem] that assms(2)
    by (simp add: step sendEvent_def fetch_sent_def)
  show "edge_poll eng key taskId rem i s =
           (s\<lparr> written := written s @ [Write (StatusEvent (edge_pending_message i)),
                                        Write (ErrorEvent MSG_TIMEOUT), Close],
               fetched := fetched s @ [poll_request BASE_URL key tid] \<rparr>, None)"
    if "\<not> i + 1 < EDGE_MAX_POLLS"
    using that
    by (simp add: step edge_poll_timeout sendEvent_def fetch_sent_def writer_close_def)
qed

lemma route_pending_observed:
  assumes "i < ROUTE_MAX_POLLS" "tpl eng taskId = Inr tid" "route_pending (poll rem i)"
  shows "has_write res \<Longrightarrow>
         prefix (res_calls t @ [ResWrite (StatusEvent (route_pending_message i))])
           (res_calls (fst (route_poll eng res base key taskId rem i t)))"
    and "prefix (requested t @ [poll_request base key tid])
           (requested (fst (route_poll eng res base key taskId rem i t)))"
    and "i + 1 < ROUTE_MAX_POLLS \<Longrightarrow>
         prefix (requested t @ [poll_request base key tid, poll_request base key tid])
           (requested (fst (route_poll eng res base key taskId rem i t)))"
    and "\<not> i + 1 < ROUTE_MAX_POLLS \<Longrightarrow> has_write res \<Longrightarrow> has_end res \<Longrightarrow>
         route_poll eng res base key taskId rem i t =
           (t\<lparr> res_calls := res_calls t @ [ResWrite (StatusEvent (route_pending_message i)),
                                            ResWrite (ErrorEvent MSG_TIMEOUT), ResEnd],
               requested := requested t @ [poll_request base key tid] \<rparr>, None)"
proof -
  let ?s = "route_sendEvent res (StatusEvent (route_pending_message i))
              (route_fetch_sent (poll_request base key tid) t)"
  have step: "route_poll eng res base key taskId rem i t =
              route_poll eng res base key taskId rem (Suc i) ?s"
    by (rule route_poll_step_pending [OF assms])
  from route_poll_prefix [of ?s eng res base key taskId rem "Suc i"]
  show "prefix (res_calls t @ [ResWrite (StatusEvent (route_pending_message i))])
           (res_calls (fst (route_poll eng res base key taskId rem i t)))" if "has_write res"
    using that by (simp add: step route_sendEvent_def called_def route_fetch_sent_def)
  from route_poll_prefix [of ?s eng res base key taskId rem "Suc i"]
  show "prefix (requested t @ [poll_request base key tid])
           (requested (fst (route_poll eng res base key taskId rem i t)))"
    by (cases "has_write res")
      (simp_all add: step route_sendEvent_def called_def route_fetch_sent_def)
  show "prefix (requested t @ [poll_request base key tid, poll_request base key tid])
           (requested (fst (route_poll eng res base key taskId rem i t)))"
    if "i + 1 < ROUTE_MAX_POLLS"
    using route_poll_first_fetch [of "Suc i" eng taskId tid ?s res base key rem] that assms(2)
    by (cases "has_write res")
      (simp_all add: step route_sendEvent_def called_def route_fetch_sent_def)
  show "route_poll eng res base key taskId rem i t =
           (t\<lparr> res_calls := res_calls t @ [ResWrite (StatusEvent (route_pending_message i)),
                                            ResWrite (ErrorEvent MSG_TIMEOUT), ResEnd],
               requested := requested t @ [poll_request base key tid] \<rparr>, None)"
    if "\<not> i + 1 < ROUTE_MAX_POLLS" "has_write res" "has_end res"
    using that
    by (simp add: step route_poll_timeout route_sendEvent_def route_end_def called_def
        route_fetch_sent_def)
qed

section \<open>The claims\<close>

text \<open>
  C1, as amended. When the request carries a usable prompt, the submit call succeeds with a
  task identifier, \<open>n\<close> polls (\<open>n\<close> below the budget) answer with a status that is
  neither \<open>SUCCEED\<close> nor \<open>FAILED\<close>, and the next poll answers with the literal status
  \<open>SUCCEED\<close> and an image URL \<open>u\<close> where the handler reads it
  (\<open>output_images[0].url\<close> in the edge handler, \<open>output_images.url\<close> in the route
  handler), then the handler emits exactly: the submission status, the submitted status,
  \<open>n\<close> pending statuses numbered from 1, and one \<open>complete\<close> event with \<open>imageUrl = u\<close>;
  it then closes the stream, having sent one submit request and \<open>n + 1\<close> poll requests.
  For the route handler the response object must offer \<open>setHeader\<close>, \<open>write\<close> and
  \<open>end\<close>.
\<close>

theorem succeed_sequence:
  "(prompt_of b = Some p \<and> submitted_task rem = Some (JStr tid) \<and> n < EDGE_MAX_POLLS
      \<and> (\<forall>j<n. edge_pending (poll rem j)) \<and> edge_succeeded eng (poll rem n) u
    \<longrightarrow> onRequestPost eng key (Inr b) rem =
         (StreamReply EDGE_HEADERS,
          \<lparr> written = map Write (edge_progress n @ [CompleteEvent MSG_COMPLETE u]) @ [Close],
            fetched = submit_request BASE_URL key p
              # replicate (Suc n) (poll_request BASE_URL key tid) \<rparr>))
   \<and> (streams res \<and> prompt_of b = Some p \<and> submitted_task rem' = Some (JStr tid)
      \<and> n < ROUTE_MAX_POLLS \<and> (\<forall>j<n. route_pending (poll rem' j))
      \<and> route_succeeded eng (poll rem' n) u'
    \<longrightarrow> route_generate eng res base penv b rem' =
         (\<lparr> res_calls = ROUTE_HEADER_CALLS
              @ map ResWrite (route_progress n @ [CompleteEvent MSG_COMPLETE u']) @ [ResEnd],
            requested = submit_request base penv p
              # replicate (Suc n) (poll_request base penv tid) \<rparr>,
          None))"
  using edge_succeed_run route_succeed_run by blast

theorem succeed_sequence_witness:
  "onRequestPost eng0 None (Inr body0) rem_edge_succeed =
     (StreamReply EDGE_HEADERS,
      \<lparr> written = map Write (edge_progress 2 @ [CompleteEvent MSG_COMPLETE url0]) @ [Close],
        fetched = submit_request BASE_URL None (ascii '' a cat '')
          # replicate 3 (poll_request BASE_URL None (ascii ''t1'')) \<rparr>)
   \<and> route_generate eng0 express_res BASE_URL None body0 rem_route_succeed =
     (\<lparr> res_calls = ROUTE_HEADER_CALLS
          @ map ResWrite (route_progress 2 @ [CompleteEvent MSG_COMPLETE url0]) @ [ResEnd],
        requested = submit_request BASE_URL None (ascii '' a cat '')
          # replicate 3 (poll_request BASE_URL None (ascii ''t1'')) \<rparr>,
      None)"
proof -
  have e: "edge_succeeded eng0 (poll rem_edge_succeed 2) url0"
    by (simp add: edge_succeeded_def rem_edge_succeed_def poll_data_def json_response_def
        edge_image_body_def nullish_def task_status_def own_prop_def SUCCEED_def
        edge_image_url_def get_prop_def get_index0_def first_elem_def ascii_def)
  have r: "route_succeeded eng0 (poll rem_route_succeed 2) url0"
    by (simp add: route_succeeded_def route_poll_data_def rem_route_succeed_def poll_data_def
        json_response_def route_image_body_def nullish_def task_status_def own_prop_def
        SUCCEED_def route_image_url_def get_prop_def ascii_def)
  have pe: "\<forall>j<2. edge_pending (poll rem_edge_succeed j)"
    using pending_PENDING by (simp add: rem_edge_succeed_def)
  have pr: "\<forall>j<2. route_pending (poll rem_route_succeed j)"
    using pending_PENDING
    by (simp add: rem_route_succeed_def route_pending_def edge_pending_def route_poll_data_def
        json_response_def)
  have s: "streams express_res"
    by (simp add: streams_def express_res_def)
  show ?thesis
    using succeed_sequence [where b = body0 and p = "ascii '' a cat ''" and tid = "ascii ''t1''"
        and n = 2 and rem = rem_edge_succeed and rem' = rem_route_succeed and eng = eng0
        and u = url0 and u' = url0 and res = express_res and key = None and base = BASE_URL
        and penv = None]
      e r pe pr s prompt_of_body0
    by (simp add: submitted_accepted rem_edge_succeed_def rem_route_succeed_def
        EDGE_MAX_POLLS_def ROUTE_MAX_POLLS_def eval_nat_numeral)
qed

text \<open>
  C1 as stated names the status \<open>SUCCEEDED\<close>. The handlers compare with \<open>SUCCEED\<close>: a
  first poll that answers \<open>SUCCEEDED\<close> with an image URL is taken as pending, and the
  stream is not the submission status, the submitted status and a \<open>complete\<close> event.
\<close>

theorem succeeded_literal_counterexample:
  "written (snd (onRequestPost eng0 None (Inr body0) rem_succeeded)) \<noteq>
   map Write [StatusEvent MSG_SUBMITTING, StatusEvent MSG_SUBMITTED,
              CompleteEvent MSG_COMPLETE url0] @ [Close]"
proof -
  have "\<forall>j<EDGE_MAX_POLLS. edge_pending (poll rem_succeeded j)"
    using pending_SUCCEEDED by (simp add: rem_succeeded_def)
  then have "written (snd (onRequestPost eng0 None (Inr body0) rem_succeeded)) =
    map Write (edge_progress EDGE_MAX_POLLS @ [ErrorEvent MSG_TIMEOUT]) @ [Close]"
    using edge_timeout_run [OF prompt_of_body0, where rem = rem_succeeded and eng = eng0
        and taskId = "JStr (ascii ''t1'')" and tid = "ascii ''t1''"]
    by (simp add: submitted_accepted rem_succeeded_def tpl_def)
  moreover have "[0..<EDGE_MAX_POLLS] = 0 # [1..<EDGE_MAX_POLLS]"
    by (subst upt_rec) (simp add: EDGE_MAX_POLLS_def)
  ultimately show ?thesis
    by (simp add: edge_progress_def)
qed

text \<open>
  C6. When the submit call succeeds and every poll of the budget answers with a status
  that is neither \<open>SUCCEED\<close> nor \<open>FAILED\<close>, the handler emits the submission status, the
  submitted status, one pending status per poll and last a timeout error, then closes the
  stream; it has sent the submit request and exactly as many poll requests as the budget:
  40 in the edge handler, 60 in the route handler of the Express adapter (given a response
  object that offers \<open>setHeader\<close>, \<open>write\<close> and \<open>end\<close>).
\<close>

theorem timeout_after_budget:
  "(prompt_of b = Some p \<and> submitted_task rem = Some taskId \<and> tpl eng taskId = Inr tid
      \<and> (\<forall>j<40. edge_pending (poll rem j))
    \<longrightarrow> onRequestPost eng key (Inr b) rem =
         (StreamReply EDGE_HEADERS,
          \<lparr> written = map Write (edge_progress 40 @ [ErrorEvent MSG_TIMEOUT]) @ [Close],
            fetched = submit_request BASE_URL key p
              # replicate 40 (poll_request BASE_URL key tid) \<rparr>))
   \<and> (streams res \<and> prompt_of b = Some p \<and> submitted_task rem' = Some taskId
      \<and> tpl eng taskId = Inr tid \<and> (\<forall>j<60. route_pending (poll rem' j))
    \<longrightarrow> route_generate eng res base penv b rem' =
         (\<lparr> res_calls = ROUTE_HEADER_CALLS
              @ map ResWrite (route_progress 60 @ [ErrorEvent MSG_TIMEOUT]) @ [ResEnd],
            requested = submit_request base penv p
              # replicate 60 (poll_request base penv tid) \<rparr>,
          None))"
  using edge_timeout_run [of b p rem taskId eng tid key]
    route_timeout_run [of res b p rem' taskId eng tid base penv]
  by (simp add: EDGE_MAX_POLLS_def ROUTE_MAX_POLLS_def)

theorem timeout_after_budget_witness:
  "onRequestPost eng0 None (Inr body0) rem_pending =
     (StreamReply EDGE_HEADERS,
      \<lparr> written = map Write (edge_progress 40 @ [ErrorEvent MSG_TIMEOUT]) @ [Close],
        fetched = submit_request BASE_URL None (ascii '' a cat '')
          # replicate 40 (poll_request BASE_URL None (ascii ''t1'')) \<rparr>)
   \<and> route_generate eng0 express_res BASE_URL None body0 rem_pending =
     (\<lparr> res_calls = ROUTE_HEADER_CALLS
          @ map ResWrite (route_progress 60 @ [ErrorEvent MSG_TIMEOUT]) @ [ResEnd],
        requested = submit_request BASE_URL None (ascii '' a cat '')
          # replicate 60 (poll_request BASE_URL None (ascii ''t1'')) \<rparr>,
      None)"
  using timeout_after_budget [where b = body0 and p = "ascii '' a cat ''"
      and taskId = "JStr (ascii ''t1'')" and tid = "ascii ''t1''" and rem = rem_pending
      and rem' = rem_pending and eng = eng0 and res = express_res and key = None
      and base = BASE_URL and penv = None]
    prompt_of_body0 streams_express_res pending_PENDING route_pending_PENDING
  by (simp add: submitted_accepted rem_pending_def)

text \<open>
  C5. When the remote submit call returns a response that is not a success and whose text
  is \<open>errText\<close>, the handler emits the submission status and then exactly one error event
  whose message ends with \<open>errText\<close> (the route handler puts the HTTP status before it),
  closes the stream, and has sent the submit request once and no poll request.
\<close>

theorem submit_refused:
  "(prompt_of b = Some p \<and> submit rem = Inr r \<and> \<not> resp_ok r \<and> resp_text r = Inr errText
    \<longrightarrow> onRequestPost eng key (Inr b) rem =
         (StreamReply EDGE_HEADERS,
          \<lparr> written = [Write (StatusEvent MSG_SUBMITTING),
                       Write (ErrorEvent (MSG_API_FAILED @ errText)), Close],
            fetched = [submit_request BASE_URL key p] \<rparr>))
   \<and> (streams res \<and> prompt_of b = Some p \<and> submit rem = Inr r \<and> \<not> resp_ok r
      \<and> resp_text r = Inr errText
    \<longrightarrow> route_generate eng res base penv b rem =
         (\<lparr> res_calls = ROUTE_HEADER_CALLS
              @ [ResWrite (StatusEvent MSG_SUBMITTING),
                 ResWrite (ErrorEvent (MSG_API_FAILED @ decimal (resp_status r) @ ascii '' ''
                                         @ errText)),
                 ResEnd],
            requested = [submit_request base penv p] \<rparr>,
          None))"
  using edge_submit_refused route_submit_refused by blast

theorem submit_refused_witness:
  "onRequestPost eng0 None (Inr body0) rem_rejected =
     (StreamReply EDGE_HEADERS,
      \<lparr> written = [Write (StatusEvent MSG_SUBMITTING),
                   Write (ErrorEvent (MSG_API_FAILED @ ascii ''Unauthorized'')), Close],
        fetched = [submit_request BASE_URL None (ascii '' a cat '')] \<rparr>)
   \<and> route_generate eng0 express_res BASE_URL None body0 rem_rejected =
     (\<lparr> res_calls = ROUTE_HEADER_CALLS
          @ [ResWrite (StatusEvent MSG_SUBMITTING),
             ResWrite (ErrorEvent (MSG_API_FAILED @ ascii ''401 Unauthorized'')),
             ResEnd],
        requested = [submit_request BASE_URL None (ascii '' a cat '')] \<rparr>,
      None)"
proof -
  have "decimal 401 = ascii ''401''"
    by (simp add: decimal.simps [of 401] decimal.simps [of 40] decimal.simps [of 4] ascii_def)
  then show ?thesis
    using submit_refused [where b = body0 and p = "ascii '' a cat ''" and rem = rem_rejected
        and r = "text_response 401 (ascii ''Unauthorized'')" and errText = "ascii ''Unauthorized''"
        and eng = eng0 and res = express_res and key = None and base = BASE_URL and penv = None]
      prompt_of_body0 streams_express_res
    by (simp add: rem_rejected_def text_response_def ascii_def)
qed

text \<open>
  C3. When the prompt of the request body is missing, empty or white space only (or any
  other value that \<open>!prompt\<close> rejects), the edge handler returns its rejection, and its
  task has written nothing and sent no request. The route handler sends no request either,
  whatever its response object is; on a response object with \<open>status\<close> and \<open>json\<close> its only
  calls are \<open>status(400)\<close> and \<open>json({ error: ... })\<close>.
\<close>

theorem blank_prompt_no_remote_call:
  "(\<not> nullish b \<and> blank_prompt (own_prop b (ascii ''prompt''))
    \<longrightarrow> onRequestPost eng key (Inr b) rem = (edge_rejection, \<lparr> written = [], fetched = [] \<rparr>))
   \<and> (\<not> nullish b \<and> blank_prompt (own_prop b (ascii ''prompt''))
    \<longrightarrow> requested (fst (route_generate eng res base penv b rem)) = []
        \<and> (has_status res \<and> has_json res
           \<longrightarrow> route_generate eng res base penv b rem =
               (\<lparr> res_calls =
                    [ResStatus 400, ResJson (JObj [(ascii ''error'', JStr MSG_EMPTY_PROMPT)])],
                  requested = [] \<rparr>,
                None)))"
  using edge_blank [of b eng key rem] route_blank [of b eng res base penv rem]
    route_rejection_requested [of eng res]
  by (auto simp: init_task_def route_rejection_def init_route_def called_def Let_def)

theorem blank_prompt_no_remote_call_witness:
  "onRequestPost eng0 None (Inr blank_body) rem_pending =
     (edge_rejection, \<lparr> written = [], fetched = [] \<rparr>)
   \<and> route_generate eng0 express_res BASE_URL None blank_body rem_pending =
     (\<lparr> res_calls = [ResStatus 400, ResJson (JObj [(ascii ''error'', JStr MSG_EMPTY_PROMPT)])],
        requested = [] \<rparr>,
      None)"
proof -
  have "\<not> nullish blank_body"
    by (simp add: nullish_def blank_body_def)
  moreover have "blank_prompt (own_prop blank_body (ascii ''prompt''))"
    by (simp add: blank_prompt_def blank_body_def own_prop_def trim_def is_white_space_def
        ascii_def)
  ultimately show ?thesis
    using blank_prompt_no_remote_call [where b = blank_body and eng = eng0 and key = None
        and rem = rem_pending and res = express_res and base = BASE_URL and penv = None]
    by (simp add: express_res_def)
qed

text \<open>
  C9. In iteration \<open>i\<close> of the poll loop, when the poll answer has a JSON body that is not
  null (of a success response, for the route handler) and whose \<open>task_status\<close> is anything
  but the strings \<open>SUCCEED\<close> and \<open>FAILED\<close> (absent, not a string, another spelling), the
  handler takes the job as pending. What the loop returns then begins with what was written
  and sent before, followed by the poll request and by the pending status numbered
  \<open>i + 1\<close> (on a response object with \<open>write\<close>, for the route handler). It goes on as
  iteration \<open>i + 1\<close> does: while an iteration is left the next request is again a poll of
  the task, and after the last one the loop ends with the timeout error and the close.
\<close>

theorem other_status_is_pending:
  "(i < EDGE_MAX_POLLS \<and> tpl eng taskId = Inr tid \<and> poll_data (poll rem i) = Some d
      \<and> task_status d \<noteq> JStr (ascii ''SUCCEED'') \<and> task_status d \<noteq> JStr (ascii ''FAILED'')
    \<longrightarrow> edge_poll eng key taskId rem i s =
         edge_poll eng key taskId rem (i + 1)
           (sendEvent
              (StatusEvent ([0x751F, 0x6210, 0x4E2D] @ ascii ''... ('' @ decimal (i + 1) @ ascii '')''))
              (fetch_sent (poll_request BASE_URL key tid) s))
        \<and> prefix
            (written s
               @ [Write (StatusEvent ([0x751F, 0x6210, 0x4E2D] @ ascii ''... (''
                                        @ decimal (i + 1) @ ascii '')''))])
            (written (fst (edge_poll eng key taskId rem i s)))
        \<and> prefix (fetched s @ [poll_request BASE_URL key tid])
            (fetched (fst (edge_poll eng key taskId rem i s)))
        \<and> (i + 1 < EDGE_MAX_POLLS
           \<longrightarrow> prefix (fetched s @ [poll_request BASE_URL key tid, poll_request BASE_URL key tid])
                (fetched (fst (edge_poll eng key taskId rem i s))))
        \<and> (\<not> i + 1 < EDGE_MAX_POLLS
           \<longrightarrow> edge_poll eng key taskId rem i s =
                (s\<lparr> written := written s
                       @ [Write (StatusEvent ([0x751F, 0x6210, 0x4E2D] @ ascii ''... (''
                                                @ decimal (i + 1) @ ascii '')'')),
                          Write (ErrorEvent MSG_TIMEOUT), Close],
                    fetched := fetched s @ [poll_request BASE_URL key tid] \<rparr>,
                 None)))
   \<and> (i < ROUTE_MAX_POLLS \<and> tpl eng taskId = Inr tid \<and> route_poll_data (poll rem i) = Some d
      \<and> task_status d \<noteq> JStr (ascii ''SUCCEED'') \<and> task_status d \<noteq> JStr (ascii ''FAILED'')
    \<longrightarrow> route_poll eng res base key taskId rem i t =
         route_poll eng res base key taskId rem (i + 1)
           (route_sendEvent res
              (StatusEvent ([0x6B63, 0x5728, 0x751F, 0x6210, 0x4E2D] @ ascii ''... (''
                             @ decimal (i + 1) @ ascii '')''))
              (route_fetch_sent (poll_request base key tid) t))
        \<and> (has_write res
           \<longrightarrow> prefix
                (res_calls t
                   @ [ResWrite (StatusEvent ([0x6B63, 0x5728, 0x751F, 0x6210, 0x4E2D]
                                               @ ascii ''... ('' @ decimal (i + 1) @ ascii '')''))])
                (res_calls (fst (route_poll eng res base key taskId rem i t))))
        \<and> prefix (requested t @ [poll_request base key tid])
            (requested (fst (route_poll eng res base key taskId rem i t)))
        \<and> (i + 1 < ROUTE_MAX_POLLS
           \<longrightarrow> prefix (requested t @ [poll_request base key tid, poll_request base key tid])
                (requested (fst (route_poll eng res base key taskId rem i t))))
        \<and> (\<not> i + 1 < ROUTE_MAX_POLLS \<and> has_write res \<and> has_end res
           \<longrightarrow> route_poll eng res base key taskId rem i t =
                (t\<lparr> res_calls := res_calls t
                       @ [ResWrite (StatusEvent ([0x6B63, 0x5728, 0x751F, 0x6210, 0x4E2D]
                                                   @ ascii ''... ('' @ decimal (i + 1) @ ascii '')'')),
                          ResWrite (ErrorEvent MSG_TIMEOUT), ResEnd],
                    requested := requested t @ [poll_request base key tid] \<rparr>,
                 None)))"
proof -
  have e: "edge_pending (poll rem i)"
    if "poll_data (poll rem i) = Some d" "task_status d \<noteq> JStr (ascii ''SUCCEED'')"
      "task_status d \<noteq> JStr (ascii ''FAILED'')"
    using that by (simp add: edge_pending_def SUCCEED_def FAILED_def)
  have r: "route_pending (poll rem i)"
    if "route_poll_data (poll rem i) = Some d" "task_status d \<noteq> JStr (ascii ''SUCCEED'')"
      "task_status d \<noteq> JStr (ascii ''FAILED'')"
    using that by (simp add: route_pending_def SUCCEED_def FAILED_def)
  show ?thesis
    using edge_poll_step_pending [of i eng taskId tid rem key s]
      edge_pending_observed [where i = i and eng = eng and taskId = taskId and tid = tid
        and rem = rem and s = s and key = key]
      route_poll_step_pending [of i eng taskId tid rem res base key t]
      route_pending_observed [where i = i and eng = eng and taskId = taskId and tid = tid
        and rem = rem and res = res and t = t and base = base and key = key]
      e r
    by (simp add: edge_pending_message_def route_pending_message_def)
qed

theorem other_status_is_pending_witness:
  "edge_poll eng0 None (JStr (ascii ''t1'')) rem_succeeded 0 init_task =
     edge_poll eng0 None (JStr (ascii ''t1'')) rem_succeeded 1
       (sendEvent (StatusEvent ([0x751F, 0x6210, 0x4E2D] @ ascii ''... (1)''))
          (fetch_sent (poll_request BASE_URL None (ascii ''t1'')) init_task))
   \<and> prefix [Write (StatusEvent ([0x751F, 0x6210, 0x4E2D] @ ascii ''... (1)''))]
       (written (fst (edge_poll eng0 None (JStr (ascii ''t1'')) rem_succeeded 0 init_task)))
   \<and> prefix [poll_request BASE_URL None (ascii ''t1''), poll_request BASE_URL None (ascii ''t1'')]
       (fetched (fst (edge_poll eng0 None (JStr (ascii ''t1'')) rem_succeeded 0 init_task)))
   \<and> route_poll eng0 express_res BASE_URL None (JStr (ascii ''t1'')) rem_empty 0 init_route =
     route_poll eng0 express_res BASE_URL None (JStr (ascii ''t1'')) rem_empty 1
       (route_sendEvent express_res
          (StatusEvent ([0x6B63, 0x5728, 0x751F, 0x6210, 0x4E2D] @ ascii ''... (1)''))
          (route_fetch_sent (poll_request BASE_URL None (ascii ''t1'')) init_route))
   \<and> prefix [ResWrite (StatusEvent ([0x6B63, 0x5728, 0x751F, 0x6210, 0x4E2D] @ ascii ''... (1)''))]
       (res_calls (fst (route_poll eng0 express_res BASE_URL None (JStr (ascii ''t1'')) rem_empty
          0 init_route)))
   \<and> prefix [poll_request BASE_URL None (ascii ''t1''), poll_request BASE_URL None (ascii ''t1'')]
       (requested (fst (route_poll eng0 express_res BASE_URL None (JStr (ascii ''t1'')) rem_empty
          0 init_route)))"
proof -
  have d1: "decimal (Suc 0) = ascii ''1''"
    by (subst decimal.simps) (simp add: ascii_def)
  have e: "poll_data (poll rem_succeeded 0) = Some (edge_image_body ''SUCCEEDED'')"
    by (simp add: rem_succeeded_def poll_data_def json_response_def nullish_def
        edge_image_body_def)
  have r: "route_poll_data (poll rem_empty 0) = Some (JObj [])"
    by (simp add: rem_empty_def route_poll_data_def poll_data_def json_response_def nullish_def)
  have se: "task_status (edge_image_body ''SUCCEEDED'') = JStr (ascii ''SUCCEEDED'')"
    by (simp add: task_status_def edge_image_body_def own_prop_def)
  have sr: "task_status (JObj []) = JUndefined"
    by (simp add: task_status_def own_prop_def)
  have E: "edge_poll eng0 None (JStr (ascii ''t1'')) rem_succeeded 0 init_task =
     edge_poll eng0 None (JStr (ascii ''t1'')) rem_succeeded 1
       (sendEvent (StatusEvent ([0x751F, 0x6210, 0x4E2D] @ ascii ''... (1)''))
          (fetch_sent (poll_request BASE_URL None (ascii ''t1'')) init_task))
   \<and> prefix [Write (StatusEvent ([0x751F, 0x6210, 0x4E2D] @ ascii ''... (1)''))]
       (written (fst (edge_poll eng0 None (JStr (ascii ''t1'')) rem_succeeded 0 init_task)))
   \<and> prefix [poll_request BASE_URL None (ascii ''t1''), poll_request BASE_URL None (ascii ''t1'')]
       (fetched (fst (edge_poll eng0 None (JStr (ascii ''t1'')) rem_succeeded 0 init_task)))"
    using other_status_is_pending [where i = 0 and eng = eng0 and taskId = "JStr (ascii ''t1'')"
        and tid = "ascii ''t1''" and rem = rem_succeeded and d = "edge_image_body ''SUCCEEDED''"
        and key = None and s = init_task, THEN conjunct1] e
    by (simp (no_asm_use) add: se d1 EDGE_MAX_POLLS_def ascii_def init_task_def; blast)
  have R: "route_poll eng0 express_res BASE_URL None (JStr (ascii ''t1'')) rem_empty 0 init_route =
     route_poll eng0 express_res BASE_URL None (JStr (ascii ''t1'')) rem_empty 1
       (route_sendEvent express_res
          (StatusEvent ([0x6B63, 0x5728, 0x751F, 0x6210, 0x4E2D] @ ascii ''... (1)''))
          (route_fetch_sent (poll_request BASE_URL None (ascii ''t1'')) init_route))
   \<and> prefix [ResWrite (StatusEvent ([0x6B63, 0x5728, 0x751F, 0x6210, 0x4E2D] @ ascii ''... (1)''))]
       (res_calls (fst (route_poll eng0 express_res BASE_URL None (JStr (ascii ''t1'')) rem_empty
          0 init_route)))
   \<and> prefix [poll_request BASE_URL None (ascii ''t1''), poll_request BASE_URL None (ascii ''t1'')]
       (requested (fst (route_poll eng0 express_res BASE_URL None (JStr (ascii ''t1'')) rem_empty
          0 init_route)))"
    using other_status_is_pending [where i = 0 and eng = eng0 and taskId = "JStr (ascii ''t1'')"
        and tid = "ascii ''t1''" and rem = rem_empty and d = "JObj []" and res = express_res
        and base = BASE_URL and key = None and t = init_route, THEN conjunct2] r
    by (simp (no_asm_use) add: sr d1 ROUTE_MAX_POLLS_def ascii_def init_route_def
        express_res_def; blast)
  from E R show ?thesis
    by (intro conjI) (elim conjE, assumption)+
qed

text \<open>
  C7. When a poll reports \<open>FAILED\<close> (after \<open>n\<close> pending polls), the handler emits a terminal
  error event and closes the stream. Its message is the handler's failure prefix followed by
  the remote's \<open>error.message\<close> when that is a string \<open>r\<close> that is not empty, and followed
  by the handler's generic text when \<open>error.message\<close> is absent (or the empty string).
\<close>

theorem failed_reports_reason:
  "(prompt_of b = Some p \<and> submitted_task rem = Some (JStr tid) \<and> n < EDGE_MAX_POLLS
      \<and> (\<forall>j<n. edge_pending (poll rem j)) \<and> edge_failed (poll rem n) m
      \<and> (m = JStr r \<or> m = JUndefined)
    \<longrightarrow> onRequestPost eng key (Inr b) rem =
         (StreamReply EDGE_HEADERS,
          \<lparr> written = map Write (edge_progress n
                @ [ErrorEvent (EDGE_MSG_FAILED
                     @ (if m = JStr r \<and> r \<noteq> [] then r else EDGE_MSG_UNKNOWN))])
              @ [Close],
            fetched = submit_request BASE_URL key p
              # replicate (Suc n) (poll_request BASE_URL key tid) \<rparr>))
   \<and> (streams res \<and> prompt_of b = Some p \<and> submitted_task rem = Some (JStr tid)
      \<and> n < ROUTE_MAX_POLLS \<and> (\<forall>j<n. route_pending (poll rem j)) \<and> route_failed (poll rem n) m
      \<and> (m = JStr r \<or> m = JUndefined)
    \<longrightarrow> route_generate eng res base penv b rem =
         (\<lparr> res_calls = ROUTE_HEADER_CALLS
              @ map ResWrite (route_progress n
                  @ [ErrorEvent (ROUTE_MSG_FAILED
                       @ (if m = JStr r \<and> r \<noteq> [] then r else ROUTE_MSG_UNKNOWN))])
              @ [ResEnd],
            requested = submit_request base penv p
              # replicate (Suc n) (poll_request base penv tid) \<rparr>,
          None))"
  using edge_failed_run [of b p rem tid n m r eng key]
    route_failed_run [of res b p rem tid n m r eng base penv]
  by blast

theorem failed_reports_reason_witness:
  "onRequestPost eng0 None (Inr body0) rem_failed =
     (StreamReply EDGE_HEADERS,
      \<lparr> written = map Write (edge_progress 0
            @ [ErrorEvent (EDGE_MSG_FAILED @ ascii ''quota exceeded'')]) @ [Close],
        fetched = submit_request BASE_URL None (ascii '' a cat '')
          # replicate 1 (poll_request BASE_URL None (ascii ''t1'')) \<rparr>)
   \<and> route_generate eng0 express_res BASE_URL None body0 rem_failed_silent =
     (\<lparr> res_calls = ROUTE_HEADER_CALLS
          @ map ResWrite (route_progress 0 @ [ErrorEvent (ROUTE_MSG_FAILED @ ROUTE_MSG_UNKNOWN)])
          @ [ResEnd],
        requested = submit_request BASE_URL None (ascii '' a cat '')
          # replicate 1 (poll_request BASE_URL None (ascii ''t1'')) \<rparr>,
      None)"
proof -
  have e: "edge_failed (poll rem_failed 0) (JStr (ascii ''quota exceeded''))"
    by (simp add: edge_failed_def rem_failed_def poll_data_def json_response_def nullish_def
        failed_body_def task_status_def reason_field_def own_prop_def FAILED_def ascii_def)
  have r: "route_failed (poll rem_failed_silent 0) JUndefined"
    by (simp add: route_failed_def rem_failed_silent_def route_poll_data_def poll_data_def
        json_response_def nullish_def status_body_def task_status_def reason_field_def
        own_prop_def FAILED_def ascii_def)
  have ne: "ascii ''quota exceeded'' \<noteq> []"
    by (simp add: ascii_def)
  show ?thesis
    using failed_reports_reason [where b = body0 and p = "ascii '' a cat ''" and rem = rem_failed
        and tid = "ascii ''t1''" and n = 0 and m = "JStr (ascii ''quota exceeded'')"
        and r = "ascii ''quota exceeded''" and eng = eng0 and key = None]
      failed_reports_reason [where b = body0 and p = "ascii '' a cat ''"
        and rem = rem_failed_silent and tid = "ascii ''t1''" and n = 0 and m = JUndefined
        and res = express_res and eng = eng0 and base = BASE_URL and penv = None]
      e r ne prompt_of_body0 streams_express_res
    by (simp add: submitted_accepted rem_failed_def rem_failed_silent_def EDGE_MAX_POLLS_def
        ROUTE_MAX_POLLS_def)
qed

text \<open>
  C2. Whenever the event stream is opened (the prompt is a string that is not empty after
  trimming; for the route handler, the response object offers \<open>setHeader\<close>, \<open>write\<close> and
  \<open>end\<close>), and whatever the remote service does at the submit call and at each poll
  (a success or a non-success response, a body that cannot be read, a thrown fault, no
  terminal status within the budget), the operations on the stream are: writes of status
  events, then the write of exactly one terminal event (\<open>complete\<close> or \<open>error\<close>), then
  the close, and nothing after it. The route handler returns without throwing.
\<close>

theorem one_terminal_event:
  "(prompt_of b = Some p
    \<longrightarrow> fst (onRequestPost eng key (Inr b) rem) = StreamReply EDGE_HEADERS
        \<and> finished (written (snd (onRequestPost eng key (Inr b) rem))))
   \<and> (streams res \<and> prompt_of b = Some p
    \<longrightarrow> snd (route_generate eng res base penv b rem) = None
        \<and> finished (stream_ops (res_calls (fst (route_generate eng res base penv b rem)))))"
  using edge_task_finished [of eng key p rem] route_task_finished [of res eng base penv p rem]
    onRequestPost_stream [of b p eng key rem] route_generate_stream [of b p res eng base penv rem]
  by (simp add: streams_def)

theorem one_terminal_event_witness:
  "fst (onRequestPost eng0 None (Inr body0) rem_down) = StreamReply EDGE_HEADERS
   \<and> finished (written (snd (onRequestPost eng0 None (Inr body0) rem_down)))
   \<and> snd (route_generate eng0 express_res BASE_URL None body0 rem_down) = None
   \<and> finished (stream_ops (res_calls (fst (route_generate eng0 express_res BASE_URL None body0
        rem_down))))"
  using one_terminal_event [where b = body0 and p = "ascii '' a cat ''" and eng = eng0
      and key = None and rem = rem_down and res = express_res and base = BASE_URL and penv = None]
    prompt_of_body0 streams_express_res
  by simp

text \<open>
  C10. When the submit call returns a success response whose JSON body has no \<open>task_id\<close>,
  the handler raises nothing at that point: it emits the submission status and then the
  submitted status, and its first poll request, sent right after the submit request, goes
  to the URL of the task \<open>undefined\<close>, \<open>.../v1/tasks/undefined\<close>.
\<close>

theorem missing_task_id_polls_undefined:
  "(prompt_of b = Some p \<and> submitted_task rem = Some JUndefined
    \<longrightarrow> fst (onRequestPost eng key (Inr b) rem) = StreamReply EDGE_HEADERS
        \<and> prefix [Write (StatusEvent MSG_SUBMITTING), Write (StatusEvent MSG_SUBMITTED)]
            (written (snd (onRequestPost eng key (Inr b) rem)))
        \<and> prefix [submit_request BASE_URL key p,
                   poll_request BASE_URL key (ascii ''undefined'')]
            (fetched (snd (onRequestPost eng key (Inr b) rem))))
   \<and> (streams res \<and> prompt_of b = Some p \<and> submitted_task rem = Some JUndefined
    \<longrightarrow> prefix (ROUTE_HEADER_CALLS
                  @ [ResWrite (StatusEvent MSG_SUBMITTING), ResWrite (StatusEvent MSG_SUBMITTED)])
            (res_calls (fst (route_generate eng res base penv b rem)))
        \<and> prefix [submit_request base penv p, poll_request base penv (ascii ''undefined'')]
            (requested (fst (route_generate eng res base penv b rem))))
   \<and> req_url (poll_request base key (ascii ''undefined'')) = base @ ascii ''v1/tasks/undefined''"
proof -
  have "req_url (poll_request base key (ascii ''undefined'')) = base @ ascii ''v1/tasks/undefined''"
    by (simp add: poll_request_def ascii_def)
  then show ?thesis
    using edge_missing_task_id [of b p rem eng key]
      route_missing_task_id [of res b p rem eng base penv]
    by simp
qed

theorem missing_task_id_polls_undefined_witness:
  "fst (onRequestPost eng0 None (Inr body0) rem_empty) = StreamReply EDGE_HEADERS
   \<and> prefix [Write (StatusEvent MSG_SUBMITTING), Write (StatusEvent MSG_SUBMITTED)]
       (written (snd (onRequestPost eng0 None (Inr body0) rem_empty)))
   \<and> prefix [submit_request BASE_URL None (ascii '' a cat ''),
              poll_request BASE_URL None (ascii ''undefined'')]
       (fetched (snd (onRequestPost eng0 None (Inr body0) rem_empty)))
   \<and> prefix (ROUTE_HEADER_CALLS
             @ [ResWrite (StatusEvent MSG_SUBMITTING), ResWrite (StatusEvent MSG_SUBMITTED)])
       (res_calls (fst (route_generate eng0 express_res BASE_URL None body0 rem_empty)))
   \<and> prefix [submit_request BASE_URL None (ascii '' a cat ''),
              poll_request BASE_URL None (ascii ''undefined'')]
       (requested (fst (route_generate eng0 express_res BASE_URL None body0 rem_empty)))"
proof -
  have "submitted_task rem_empty = Some JUndefined"
    by (simp add: submitted_task_def rem_empty_def json_response_def nullish_def own_prop_def)
  then show ?thesis
    using missing_task_id_polls_undefined [where b = body0 and p = "ascii '' a cat ''"
        and rem = rem_empty and eng = eng0 and key = None and res = express_res
        and base = BASE_URL and penv = None]
      prompt_of_body0 streams_express_res
    by simp
qed

text \<open>
  C8. The reply and the events of a request depend on the request body and on the answers
  of the remote service alone: they are the same for every value of the API key, and so
  of \<open>process.env.MODELSCOPE_API_KEY\<close>, the only state the Express adapter keeps between
  requests (its export overwrites it before the handler reads it). For the edge handler
  these are the reply and the writes on the stream; for the route handler, its calls on the
  response object and the error it throws; for the module's export, \<open>fakeRes\<close> after the
  request and the error thrown, whatever \<open>process.env\<close> held before.
\<close>

theorem same_input_same_events:
  "fst (onRequestPost eng key body rem) = fst (onRequestPost eng key' body rem)
   \<and> written (snd (onRequestPost eng key body rem)) =
     written (snd (onRequestPost eng key' body rem))
   \<and> res_calls (fst (route_generate eng res base penv b rem)) =
     res_calls (fst (route_generate eng res base penv' b rem))
   \<and> snd (route_generate eng res base penv b rem) = snd (route_generate eng res base penv' b rem)
   \<and> fst (snd (module_exports eng g key b rem)) = fst (snd (module_exports eng g' key' b rem))
   \<and> snd (snd (snd (module_exports eng g key b rem))) =
     snd (snd (snd (module_exports eng g' key' b rem)))"
  using onRequestPost_key [of eng key body rem key']
    route_generate_key [of eng res base penv b rem penv']
    module_exports_key [of eng g key b rem g' key']
  by simp

theorem same_input_same_events_witness:
  "fst (onRequestPost eng0 None (Inr body0) rem_edge_succeed) =
     fst (onRequestPost eng0 (Some (ascii ''k1'')) (Inr body0) rem_edge_succeed)
   \<and> written (snd (onRequestPost eng0 None (Inr body0) rem_edge_succeed)) =
     written (snd (onRequestPost eng0 (Some (ascii ''k1'')) (Inr body0) rem_edge_succeed))
   \<and> res_calls (fst (route_generate eng0 express_res BASE_URL None body0 rem_route_succeed)) =
     res_calls (fst (route_generate eng0 express_res BASE_URL (Some (ascii ''k1'')) body0
       rem_route_succeed))
   \<and> snd (route_generate eng0 express_res BASE_URL None body0 rem_route_succeed) =
     snd (route_generate eng0 express_res BASE_URL (Some (ascii ''k1'')) body0 rem_route_succeed)
   \<and> fst (snd (module_exports eng0 None None body0 rem_route_succeed)) =
     fst (snd (module_exports eng0 (Some (ascii ''k0'')) (Some (ascii ''k1'')) body0
       rem_route_succeed))
   \<and> snd (snd (snd (module_exports eng0 None None body0 rem_route_succeed))) =
     snd (snd (snd (module_exports eng0 (Some (ascii ''k0'')) (Some (ascii ''k1'')) body0
       rem_route_succeed)))"
  using same_input_same_events [where eng = eng0 and key = None and key' = "Some (ascii ''k1'')"
      and body = "Inr body0" and rem = rem_route_succeed and res = express_res and base = BASE_URL
      and penv = None and penv' = "Some (ascii ''k1'')" and b = body0 and g = None
      and g' = "Some (ascii ''k0'')"]
    same_input_same_events [where eng = eng0 and key = None and key' = "Some (ascii ''k1'')"
      and body = "Inr body0" and rem = rem_edge_succeed]
  by simp

text \<open>
  C4, at the request body \<open>{"prompt": ""}\<close>. The route handler of the Express adapter
  calls \<open>res.status(400)\<close> on \<open>fakeRes\<close> and then \<open>json\<close>, which \<open>fakeRes\<close> does not have:
  a \<open>TypeError\<close> is thrown, no request is sent, and nothing resolves the adapter's
  promise: there is no response. The edge handler, at the same body, returns the response with status 400 and
  the JSON body \<open>{"error": ...}\<close>, and its task does nothing.
\<close>

theorem fakeRes_rejection_throws:
  "module_exports eng g key (JObj [(ascii ''prompt'', JStr [])]) rem =
     (key, fakeRes\<lparr> statusCode := 400 \<rparr>, [],
      Some (type_error eng (NotAFunction (ascii ''res.status(...).json''))))
   \<and> resolved (fakeRes\<lparr> statusCode := 400 \<rparr>) = None
   \<and> onRequestPost eng key (Inr (JObj [(ascii ''prompt'', JStr [])])) rem =
     (JsonReply 400 [(ascii ''Content-Type'', ascii ''application/json'')]
        (JObj [(ascii ''error'', JStr MSG_EMPTY_PROMPT)]),
      init_task)"
  by (simp add: module_exports_def route_generate_def get_prop_def nullish_def own_prop_def
      route_rejection_def fakeRes_methods_def init_route_def called_def fakeRes_status_def
      fakeRes_def Let_def onRequestPost_def edge_rejection_def)

theorem fakeRes_rejection_throws_witness:
  "module_exports eng0 None None (JObj [(ascii ''prompt'', JStr [])]) rem_pending =
     (None, fakeRes\<lparr> statusCode := 400 \<rparr>, [],
      Some (JsError (ascii ''not available'')))"
  using fakeRes_rejection_throws [of eng0 None None rem_pending]
  by (simp add: type_error_def eng0_def)

end
